theory Spec2Isabelle
  imports Main "HOL-Library.Word"
begin

section \<open>Runtime filters of the physical planner (planner/core/runtime_filter.go)\<close>

text \<open>
  The Go file works on a graph of heap objects: a runtime filter points to its build
  hash join and its target table scan, both operators point back to their filters, and
  the expression lists hold pointers to columns. The model keeps that graph in an
  explicit store. An address is a natural number; each kind of object has its own
  store, a total function from addresses to objects, so that reading through a pointer
  is always defined. A pointer that may be nil is an \<open>addr option\<close>, \<open>None\<close> being nil.
  Allocation (\<open>&RuntimeFilter{...}\<close>, \<open>new(RuntimeFilter)\<close>) takes the next free address
  of the store. The receiver of a method, the join handed to \<open>NewRuntimeFilter\<close> and the
  elements of the filter and expression lists are addresses: they are not nil. Go panics
  are error values.

  Go's \<open>int\<close> and \<open>int64\<close> fields are integers here: the file only copies and prints
  them. The one narrowing conversion, \<open>int32(rf.id)\<close>, is a 32-bit word.
\<close>

subsection \<open>Data model\<close>

type_synonym addr = nat

datatype error =
    PanicNilDereference
  | PanicIndexOutOfRange
  | PanicInterfaceConversion
  | ErrInternal string

text \<open>
  Modelled from the spec: the enum \<open>variable.RuntimeFilterType\<close> is declared in package
  \<open>sessionctx/variable\<close>, not in this file; spec section 3 gives \<open>filterType: enum {IN, MIN_MAX}\<close>, the constants the
  serializer switches on being \<open>variable.In\<close> and \<open>variable.MinMax\<close>.
\<close>
datatype RuntimeFilterType = In | MinMax

text \<open>
  Modelled from the spec: the enum \<open>variable.RuntimeFilterMode\<close> is declared in package
  \<open>sessionctx/variable\<close>, not in this file; spec section 3 gives \<open>filterMode: enum {UNSET, LOCAL, GLOBAL}\<close>. \<open>RFUnset\<close>
  is the zero value, the one \<open>String\<close> tests with \<open>rf.rfMode == 0\<close>.
\<close>
datatype RuntimeFilterMode = RFUnset | RFLocal | RFGlobal

text \<open>\<open>expression.Column\<close>: of its fields the file reads \<open>UniqueID\<close> only.\<close>
record Column =
  UniqueID :: int

text \<open>
  \<open>expression.Expression\<close> is an interface; a predicate argument is a pointer to a column
  or an expression of another kind.
\<close>
datatype Expression =
    ColumnExpr addr
  | ConstantExpr
  | ScalarFunctionExpr ScalarFunction
and ScalarFunction = ScalarFunction (GetArgs: "Expression list")

text \<open>
  \<open>PhysicalHashJoin\<close>, as far as the file uses it: its plan id, what
  \<open>RightIsBuildSide()\<close> answers, what \<open>ctx.GetSessionVars().GetRuntimeFilterTypes()\<close>
  answers, and its list of filters.
\<close>
record PhysicalHashJoin =
  hj_id :: int
  RightIsBuildSide :: bool
  GetRuntimeFilterTypes :: "RuntimeFilterType list"
  hj_runtimeFilterList :: "addr list"

record PhysicalTableScan =
  ts_id :: int
  ts_runtimeFilterList :: "addr list"
  maxWaitTimeMs :: int

record RuntimeFilter =
  rf_id :: int
  buildNode :: "addr option"
  srcExprList :: "addr list"
  targetExprList :: "addr list"
  rfType :: RuntimeFilterType
  rfMode :: RuntimeFilterMode
  targetNode :: "addr option"
  buildNodeID :: int
  targetNodeID :: int

text \<open>The value of a freshly allocated \<open>RuntimeFilter\<close>: every field zero or nil.\<close>
definition zero_RuntimeFilter :: RuntimeFilter where
  "zero_RuntimeFilter =
     \<lparr>rf_id = 0, buildNode = None, srcExprList = [], targetExprList = [], rfType = In,
      rfMode = RFUnset, targetNode = None, buildNodeID = 0, targetNodeID = 0\<rparr>"

record plan =
  columns :: "addr \<Rightarrow> Column"
  next_column :: addr
  joins :: "addr \<Rightarrow> PhysicalHashJoin"
  scans :: "addr \<Rightarrow> PhysicalTableScan"
  filters :: "addr \<Rightarrow> RuntimeFilter"
  next_filter :: addr

definition alloc_filter :: "plan \<Rightarrow> RuntimeFilter \<Rightarrow> addr \<times> plan" where
  "alloc_filter h rf =
     (next_filter h,
      h\<lparr>filters := (filters h)(next_filter h := rf), next_filter := Suc (next_filter h)\<rparr>)"

subsection \<open>The identifier generator\<close>

text \<open>
  Modelled from the spec: \<open>util.IDGenerator\<close> and its \<open>GetNextID\<close> are declared in package
  \<open>util\<close>, not in this file. Spec section 4.1: \<open>next() -> integer\<close>, strictly increasing, starting from a fixed
  baseline, no reuse. The generator is a counter; \<open>GetNextID\<close> returns the identifier and
  the advanced generator.
\<close>
record IDGenerator =
  gen_id :: int

definition GetNextID :: "IDGenerator \<Rightarrow> int \<times> IDGenerator" where
  "GetNextID g = (gen_id g + 1, g\<lparr>gen_id := gen_id g + 1\<rparr>)"

subsection \<open>NewRuntimeFilter\<close>

text \<open>\<open>xs[i]\<close> on a Go slice: a panic out of range.\<close>
definition index :: "'a list \<Rightarrow> nat \<Rightarrow> error + 'a" where
  "index xs i = (if i < length xs then Inr (xs ! i) else Inl PanicIndexOutOfRange)"

text \<open>The type assertion \<open>e.(*expression.Column)\<close>: a panic on any other kind.\<close>
fun asColumn :: "Expression \<Rightarrow> error + addr" where
  "asColumn (ColumnExpr c) = Inr c"
| "asColumn ConstantExpr = Inl PanicInterfaceConversion"
| "asColumn (ScalarFunctionExpr f) = Inl PanicInterfaceConversion"

text \<open>\<open>args[i].(*expression.Column)\<close>\<close>
definition argColumn :: "Expression list \<Rightarrow> nat \<Rightarrow> error + addr" where
  "argColumn args i = (case index args i of Inl e \<Rightarrow> Inl e | Inr x \<Rightarrow> asColumn x)"

text \<open>
  Lines 83 to 89: the source list and the target column's unique id, the build side
  read first in both branches.
\<close>
definition pickSides :: "plan \<Rightarrow> bool \<Rightarrow> Expression list \<Rightarrow> error + (addr list \<times> int)" where
  "pickSides h rightSideIsBuild args =
     (if rightSideIsBuild then
        (case argColumn args 1 of
           Inl e \<Rightarrow> Inl e
         | Inr src \<Rightarrow>
             (case argColumn args 0 of
                Inl e \<Rightarrow> Inl e
              | Inr tgt \<Rightarrow> Inr ([] @ [src], UniqueID (columns h tgt))))
      else
        (case argColumn args 0 of
           Inl e \<Rightarrow> Inl e
         | Inr src \<Rightarrow>
             (case argColumn args 1 of
                Inl e \<Rightarrow> Inl e
              | Inr tgt \<Rightarrow> Inr ([] @ [src], UniqueID (columns h tgt)))))"

text \<open>
  Lines 93 to 101: one filter per enabled type, in the order of the list; \<open>result\<close> is
  the slice built so far.
\<close>
fun newFilters ::
  "addr \<Rightarrow> addr list \<Rightarrow> RuntimeFilterType list \<Rightarrow> addr list \<Rightarrow> IDGenerator \<Rightarrow> plan
     \<Rightarrow> addr list \<times> IDGenerator \<times> plan" where
  "newFilters bn srcs [] result g h = (result, g, h)"
| "newFilters bn srcs (t # ts) result g h =
     (case GetNextID g of
        (i, g') \<Rightarrow>
          (case alloc_filter h
                  (zero_RuntimeFilter\<lparr>rf_id := i, buildNode := Some bn,
                                        srcExprList := srcs, rfType := t\<rparr>) of
             (rf, h') \<Rightarrow> newFilters bn srcs ts (result @ [rf]) g' h'))"

definition NewRuntimeFilter ::
  "IDGenerator \<Rightarrow> plan \<Rightarrow> ScalarFunction \<Rightarrow> addr
     \<Rightarrow> error + (addr list \<times> int \<times> IDGenerator \<times> plan)" where
  "NewRuntimeFilter rfIDGenerator h eqPredicate bn =
     (case pickSides h (RightIsBuildSide (joins h bn)) (GetArgs eqPredicate) of
        Inl e \<Rightarrow> Inl e
      | Inr (srcs, targetExprUniqueID) \<Rightarrow>
          (case newFilters bn srcs (GetRuntimeFilterTypes (joins h bn)) [] rfIDGenerator h of
             (result, g', h') \<Rightarrow> Inr (result, targetExprUniqueID, g', h')))"

subsection \<open>assign\<close>

definition upd_filter :: "addr \<Rightarrow> (RuntimeFilter \<Rightarrow> RuntimeFilter) \<Rightarrow> plan \<Rightarrow> plan" where
  "upd_filter a f h = h\<lparr>filters := (filters h)(a := f (filters h a))\<rparr>"

definition upd_scan :: "addr \<Rightarrow> (PhysicalTableScan \<Rightarrow> PhysicalTableScan) \<Rightarrow> plan \<Rightarrow> plan" where
  "upd_scan a f h = h\<lparr>scans := (scans h)(a := f (scans h a))\<rparr>"

definition upd_join :: "addr \<Rightarrow> (PhysicalHashJoin \<Rightarrow> PhysicalHashJoin) \<Rightarrow> plan \<Rightarrow> plan" where
  "upd_join a f h = h\<lparr>joins := (joins h)(a := f (joins h a))\<rparr>"

text \<open>
  \<open>rf.assign(targetNode, targetExpr)\<close>, statement by statement; \<open>rf\<close> is the address of
  the receiver and \<open>tn\<close> the pointer \<open>targetNode\<close>. Reading a field of \<open>rf.targetNode\<close>
  or of \<open>rf.buildNode\<close> panics when that pointer is nil. The function has no other way
  to fail: it returns nothing. The debug log at the end does not change the plan.
\<close>
definition assign :: "plan \<Rightarrow> addr \<Rightarrow> addr option \<Rightarrow> addr \<Rightarrow> error + plan" where
  "assign h rf tn targetExpr =
     (let h1 = upd_filter rf (\<lambda>r. r\<lparr>targetNode := tn\<rparr>) h in
      case targetNode (filters h1 rf) of
        None \<Rightarrow> Inl PanicNilDereference
      | Some t \<Rightarrow>
          (let h2 = (if length (ts_runtimeFilterList (scans h1 t)) = 0
                     then upd_scan t (\<lambda>s. s\<lparr>maxWaitTimeMs := 10000\<rparr>) h1
                     else h1);
               h3 = upd_filter rf (\<lambda>r. r\<lparr>targetExprList := targetExprList r @ [targetExpr]\<rparr>) h2
           in case buildNode (filters h3 rf) of
                None \<Rightarrow> Inl PanicNilDereference
              | Some b \<Rightarrow>
                  (let h4 = upd_join b
                              (\<lambda>j. j\<lparr>hj_runtimeFilterList := hj_runtimeFilterList j @ [rf]\<rparr>) h3;
                       h5 = upd_scan t
                              (\<lambda>s. s\<lparr>ts_runtimeFilterList := ts_runtimeFilterList s @ [rf]\<rparr>) h4
                   in Inr h5)))"

subsection \<open>Clone\<close>

text \<open>
  Modelled from the spec: \<open>expression.Column.Clone\<close> is declared in package
  \<open>expression\<close>, not in this file. Spec section 4.5 asks for deep copies of every
  expression, independently owned in the clone, with no aliasing: the copy is a newly
  allocated column holding the value of the original. It is a column, so the type
  assertion \<open>.(*expression.Column)\<close> on it succeeds.
\<close>
definition Column_Clone :: "plan \<Rightarrow> addr \<Rightarrow> addr \<times> plan" where
  "Column_Clone h c =
     (next_column h,
      h\<lparr>columns := (columns h)(next_column h := columns h c),
        next_column := Suc (next_column h)\<rparr>)"

text \<open>
  The two loops of \<open>Clone\<close> (lines 192 to 197): every expression of the list is cloned
  and appended to the list \<open>acc\<close> of the clone.
\<close>
fun cloneExprs :: "addr list \<Rightarrow> addr list \<Rightarrow> plan \<Rightarrow> addr list \<times> plan" where
  "cloneExprs [] acc h = (acc, h)"
| "cloneExprs (e # es) acc h =
     (case Column_Clone h e of (e', h') \<Rightarrow> cloneExprs es (acc @ [e']) h')"

text \<open>
  \<open>rf.Clone()\<close>: returns the address of the clone and the plan that holds it. The lists
  are read from the receiver before the loops, as \<open>range\<close> does.
\<close>
definition Clone :: "plan \<Rightarrow> addr \<Rightarrow> addr \<times> plan" where
  "Clone h rf =
     (case alloc_filter h zero_RuntimeFilter of
        (cloned, h0) \<Rightarrow>
          (let h1 = upd_filter cloned (\<lambda>c. c\<lparr>rf_id := rf_id (filters h0 rf)\<rparr>) h0;
               h2 = (case buildNode (filters h1 rf) of
                       None \<Rightarrow>
                         upd_filter cloned (\<lambda>c. c\<lparr>buildNodeID := buildNodeID (filters h1 rf)\<rparr>) h1
                     | Some b \<Rightarrow>
                         upd_filter cloned (\<lambda>c. c\<lparr>buildNodeID := hj_id (joins h1 b)\<rparr>) h1);
               h3 = (case targetNode (filters h2 rf) of
                       None \<Rightarrow>
                         upd_filter cloned
                           (\<lambda>c. c\<lparr>targetNodeID := targetNodeID (filters h2 rf)\<rparr>) h2
                     | Some t \<Rightarrow>
                         upd_filter cloned (\<lambda>c. c\<lparr>targetNodeID := ts_id (scans h2 t)\<rparr>) h2)
           in case cloneExprs (srcExprList (filters h3 rf)) (srcExprList (filters h3 cloned)) h3 of
                (srcs, h4) \<Rightarrow>
                  (let h5 = upd_filter cloned (\<lambda>c. c\<lparr>srcExprList := srcs\<rparr>) h4 in
                   case cloneExprs (targetExprList (filters h5 rf))
                          (targetExprList (filters h5 cloned)) h5 of
                     (tgts, h6) \<Rightarrow>
                       (let h7 = upd_filter cloned (\<lambda>c. c\<lparr>targetExprList := tgts\<rparr>) h6;
                            h8 = upd_filter cloned (\<lambda>c. c\<lparr>rfType := rfType (filters h7 rf)\<rparr>) h7;
                            h9 = upd_filter cloned (\<lambda>c. c\<lparr>rfMode := rfMode (filters h8 rf)\<rparr>) h8
                        in (cloned, h9)))))"

subsection \<open>ToPB and RuntimeFilterListToPB\<close>

datatype tipb_RuntimeFilterType = RuntimeFilterType_IN | RuntimeFilterType_MIN_MAX

datatype tipb_RuntimeFilterMode = RuntimeFilterMode_LOCAL | RuntimeFilterMode_GLOBAL

text \<open>\<open>tipb.RuntimeFilter\<close>; \<open>'e\<close> is the wire expression \<open>tipb.Expr\<close>.\<close>
record 'e tipb_RuntimeFilter =
  Id_pb :: "32 word"
  SourceExprList :: "'e list"
  TargetExprList :: "'e list"
  SourceExecutorId :: string
  TargetExecutorId :: string
  RfType :: tipb_RuntimeFilterType
  RfMode :: tipb_RuntimeFilterMode

text \<open>\<open>fmt.Sprint\<close> of an \<open>int\<close>: its decimal digits, a minus sign before a negative one.\<close>
fun digits :: "nat \<Rightarrow> string" where
  "digits n =
     (if n < 10 then [''0123456789'' ! n]
      else digits (n div 10) @ [''0123456789'' ! (n mod 10)])"

declare digits.simps [simp del]

definition Sprint :: "int \<Rightarrow> string" where
  "Sprint i = (if i < 0 then CHR ''-'' # digits (nat (- i)) else digits (nat i))"

text \<open>
  One conversion loop of \<open>ToPB\<close> (lines 220 to 226 with \<open>kind = ''src''\<close>, 228 to 234 with
  \<open>kind = ''target''\<close>). \<open>conv\<close> is \<open>pc.ExprToPB\<close>, \<open>None\<close> being its nil result; \<open>str\<close> is
  \<open>Column.String\<close>. Both belong to package \<open>expression\<close> and are parameters here.
\<close>
fun exprsToPB ::
  "(Column \<Rightarrow> 'e option) \<Rightarrow> (Column \<Rightarrow> string) \<Rightarrow> string \<Rightarrow> plan \<Rightarrow> addr list \<Rightarrow> 'e list
     \<Rightarrow> error + 'e list" where
  "exprsToPB conv str kind h [] acc = Inr acc"
| "exprsToPB conv str kind h (e # es) acc =
     (case conv (columns h e) of
        None \<Rightarrow>
          Inl (ErrInternal (''failed to transform '' @ kind @ '' expr '' @ str (columns h e)
                            @ '' to pb in runtime filter''))
      | Some pb \<Rightarrow> exprsToPB conv str kind h es (acc @ [pb]))"

definition ToPB ::
  "(Column \<Rightarrow> 'e option) \<Rightarrow> (Column \<Rightarrow> string) \<Rightarrow> plan \<Rightarrow> addr
     \<Rightarrow> error + 'e tipb_RuntimeFilter" where
  "ToPB conv str h rf =
     (case exprsToPB conv str ''src'' h (srcExprList (filters h rf)) [] of
        Inl e \<Rightarrow> Inl e
      | Inr srcExprListPB \<Rightarrow>
          (case exprsToPB conv str ''target'' h (targetExprList (filters h rf)) [] of
             Inl e \<Rightarrow> Inl e
           | Inr targetExprListPB \<Rightarrow>
               (let rfTypePB = (case rfType (filters h rf) of
                                  In \<Rightarrow> RuntimeFilterType_IN
                                | MinMax \<Rightarrow> RuntimeFilterType_MIN_MAX);
                    rfModePB = (case rfMode (filters h rf) of
                                  RFLocal \<Rightarrow> RuntimeFilterMode_LOCAL
                                | RFGlobal \<Rightarrow> RuntimeFilterMode_GLOBAL
                                | RFUnset \<Rightarrow> RuntimeFilterMode_LOCAL)
                in Inr \<lparr>Id_pb = word_of_int (rf_id (filters h rf)),
                        SourceExprList = srcExprListPB,
                        TargetExprList = targetExprListPB,
                        SourceExecutorId = Sprint (buildNodeID (filters h rf)),
                        TargetExecutorId = Sprint (targetNodeID (filters h rf)),
                        RfType = rfTypePB,
                        RfMode = rfModePB\<rparr>)))"

fun listToPB ::
  "(Column \<Rightarrow> 'e option) \<Rightarrow> (Column \<Rightarrow> string) \<Rightarrow> plan \<Rightarrow> addr list
     \<Rightarrow> 'e tipb_RuntimeFilter list \<Rightarrow> error + 'e tipb_RuntimeFilter list" where
  "listToPB conv str h [] result = Inr result"
| "listToPB conv str h (rf # rfs) result =
     (case ToPB conv str h rf of
        Inl err \<Rightarrow> Inl err
      | Inr rfPB \<Rightarrow> listToPB conv str h rfs (result @ [rfPB]))"

definition RuntimeFilterListToPB ::
  "(Column \<Rightarrow> 'e option) \<Rightarrow> (Column \<Rightarrow> string) \<Rightarrow> plan \<Rightarrow> addr list
     \<Rightarrow> error + 'e tipb_RuntimeFilter list" where
  "RuntimeFilterListToPB conv str h runtimeFilterList = listToPB conv str h runtimeFilterList []"

subsection \<open>Predicates and example inputs used by the theorems\<close>

text \<open>Whether a predicate argument is a column reference.\<close>
fun isColumn :: "Expression \<Rightarrow> bool" where
  "isColumn (ColumnExpr c) = True"
| "isColumn ConstantExpr = False"
| "isColumn (ScalarFunctionExpr f) = False"

text \<open>
  The plan of the comment above \<open>RuntimeFilter\<close>: \<open>select * from t1, t2 where t1.k1 = t2.k1\<close>.
  Column 0 is \<open>t1.k1\<close> (unique id 11), column 1 is \<open>t2.k1\<close> (unique id 22). Every join
  address holds a hash join with plan id 2 whose right side is the build side, with both
  filter types enabled; the scan at address a has plan id 7 + a and no filter.
  No filter has been allocated.
\<close>
definition plan0 :: plan where
  "plan0 =
     \<lparr>columns = (\<lambda>a. \<lparr>UniqueID = (if a = 0 then 11 else 22)\<rparr>),
      next_column = 2,
      joins = (\<lambda>a. \<lparr>hj_id = 2, RightIsBuildSide = True,
                     GetRuntimeFilterTypes = [In, MinMax], hj_runtimeFilterList = []\<rparr>),
      scans = (\<lambda>a. \<lparr>ts_id = 7 + int a, ts_runtimeFilterList = [], maxWaitTimeMs = 0\<rparr>),
      filters = (\<lambda>a. zero_RuntimeFilter),
      next_filter = 0\<rparr>"

text \<open>The predicate \<open>t1.k1 = t2.k1\<close>, and a malformed one whose second argument is a constant.\<close>
definition pred0 :: ScalarFunction where
  "pred0 = ScalarFunction [ColumnExpr 0, ColumnExpr 1]"

definition pred1 :: ScalarFunction where
  "pred1 = ScalarFunction [ColumnExpr 0, ConstantExpr]"

text \<open>
  Whether every expression of a list converts to the wire form, and whether both lists of
  a filter do.
\<close>
definition convertible :: "(Column \<Rightarrow> 'e option) \<Rightarrow> plan \<Rightarrow> addr list \<Rightarrow> bool" where
  "convertible conv h es = list_all (\<lambda>c. conv (columns h c) \<noteq> None) es"

definition filterConvertible :: "(Column \<Rightarrow> 'e option) \<Rightarrow> plan \<Rightarrow> addr \<Rightarrow> bool" where
  "filterConvertible conv h rf =
     (convertible conv h (srcExprList (filters h rf))
      \<and> convertible conv h (targetExprList (filters h rf)))"

text \<open>
  Example converters: \<open>conv0\<close> converts every column (to its unique id), \<open>conv1\<close> has no
  wire form for the column with unique id 11; \<open>str0\<close> renders a column as its unique id.
\<close>
definition conv0 :: "Column \<Rightarrow> int option" where
  "conv0 c = Some (UniqueID c)"

definition conv1 :: "Column \<Rightarrow> int option" where
  "conv1 c = (if UniqueID c = 11 then None else Some (UniqueID c))"

definition str0 :: "Column \<Rightarrow> string" where
  "str0 c = Sprint (UniqueID c)"

text \<open>
  The plans that follow from \<open>plan0\<close>: \<open>plan1\<close> after the generator has run on \<open>pred0\<close>
  (filter 0 of type \<open>In\<close>, filter 1 of type \<open>MinMax\<close>); \<open>plan2\<close> after filter 0 has been
  assigned to scan 0 with target column 0; \<open>plan3\<close> after filter 0 has been assigned a
  second time, to scan 1; \<open>plan4\<close> after filter 1 has been assigned to scan 0 as its
  second filter.
\<close>
definition plan1 :: plan where
  "plan1 = (case NewRuntimeFilter \<lparr>gen_id = 0\<rparr> plan0 pred0 0 of
              Inr (rs, t, g, h) \<Rightarrow> h | Inl e \<Rightarrow> plan0)"

definition plan2 :: plan where
  "plan2 = (case assign plan1 0 (Some 0) 0 of Inr h \<Rightarrow> h | Inl e \<Rightarrow> plan1)"


definition plan4 :: plan where
  "plan4 = (case assign plan2 1 (Some 0) 0 of Inr h \<Rightarrow> h | Inl e \<Rightarrow> plan2)"

text \<open>\<open>plan2\<close> with the mode of filter 0 set to \<open>RFGlobal\<close>.\<close>
definition plan5 :: plan where
  "plan5 = upd_filter 0 (\<lambda>r. r\<lparr>rfMode := RFGlobal\<rparr>) plan2"

text \<open>
  A filter of the plan: its address and the addresses of its expressions have been
  allocated. Go has no other pointers.
\<close>
definition allocated :: "plan \<Rightarrow> addr \<Rightarrow> bool" where
  "allocated h rf =
     (rf < next_filter h
      \<and> list_all (\<lambda>c. c < next_column h)
           (srcExprList (filters h rf) @ targetExprList (filters h rf)))"

text \<open>
  \<open>plan6\<close>: \<open>plan2\<close> after filter 0 has been cloned (the clone is filter 2); \<open>plan7\<close>:
  \<open>plan6\<close> after that clone has been cloned again (filter 3); \<open>plan8\<close>: \<open>plan2\<close> after the
  unassigned filter 1 has been cloned (filter 2).
\<close>
definition plan6 :: plan where
  "plan6 = snd (Clone plan2 0)"

definition plan7 :: plan where
  "plan7 = snd (Clone plan6 2)"

definition plan8 :: plan where
  "plan8 = snd (Clone plan2 1)"



text \<open>Whether an error is the planner's internal error \<open>ErrInternal\<close>.\<close>
fun isErrInternal :: "error \<Rightarrow> bool" where
  "isErrInternal (ErrInternal msg) = True"
| "isErrInternal PanicNilDereference = False"
| "isErrInternal PanicIndexOutOfRange = False"
| "isErrInternal PanicInterfaceConversion = False"

section \<open>Properties of the generator\<close>

lemma upt_Suc_front: "[n ..< n + Suc k] = n # [Suc n ..< Suc n + k]"
  using upt_conv_Cons[of n "n + Suc k"] by simp

lemma newFilters_result:
  "fst (newFilters bn srcs ts result g h)
     = result @ [next_filter h ..< next_filter h + length ts]"
proof (induction ts arbitrary: result g h)
  case Nil
  show ?case by simp
next
  case (Cons t ts)
  have "fst (newFilters bn srcs (t # ts) result g h)
          = (result @ [next_filter h]) @ [Suc (next_filter h) ..< Suc (next_filter h) + length ts]"
    by (simp add: GetNextID_def alloc_filter_def Cons.IH del: upt_Suc)
  also have "\<dots> = result @ [next_filter h ..< next_filter h + length (t # ts)]"
    using upt_Suc_front[of "next_filter h" "length ts"] by simp
  finally show ?case .
qed

lemma newFilters_gen:
  "gen_id (fst (snd (newFilters bn srcs ts result g h))) = gen_id g + int (length ts)"
  by (induction ts arbitrary: result g h) (simp_all add: GetNextID_def alloc_filter_def)

lemma newFilters_frame:
  "columns (snd (snd (newFilters bn srcs ts result g h))) = columns h"
  "next_column (snd (snd (newFilters bn srcs ts result g h))) = next_column h"
  "joins (snd (snd (newFilters bn srcs ts result g h))) = joins h"
  "scans (snd (snd (newFilters bn srcs ts result g h))) = scans h"
  "next_filter (snd (snd (newFilters bn srcs ts result g h))) = next_filter h + length ts"
  by (induction ts arbitrary: result g h; simp add: GetNextID_def alloc_filter_def)+

lemma newFilters_filters:
  "filters (snd (snd (newFilters bn srcs ts result g h))) a
     = (if next_filter h \<le> a \<and> a < next_filter h + length ts
        then zero_RuntimeFilter\<lparr>rf_id := gen_id g + 1 + int (a - next_filter h),
               buildNode := Some bn, srcExprList := srcs,
               rfType := ts ! (a - next_filter h)\<rparr>
        else filters h a)"
proof (induction ts arbitrary: result g h)
  case Nil
  show ?case by auto
next
  case (Cons t ts)
  let ?n = "next_filter h"
  let ?mk = "\<lambda>(i::int) ty. zero_RuntimeFilter\<lparr>rf_id := i, buildNode := Some bn,
                                     srcExprList := srcs, rfType := ty\<rparr>"
  have step: "filters (snd (snd (newFilters bn srcs (t # ts) result g h))) a
          = (if Suc ?n \<le> a \<and> a < Suc ?n + length ts
             then ?mk (gen_id g + 1 + 1 + int (a - Suc ?n)) (ts ! (a - Suc ?n))
             else ((filters h)(?n := ?mk (gen_id g + 1) t)) a)"
    by (simp add: GetNextID_def alloc_filter_def Cons.IH)
  consider "a < ?n" | "a = ?n" | "Suc ?n \<le> a" by linarith
  then show ?case
  proof cases
    case 1
    then show ?thesis unfolding step by simp
  next
    case 2
    then show ?thesis unfolding step by simp
  next
    case 3
    then have "a - ?n = Suc (a - Suc ?n)" by simp
    with 3 show ?thesis unfolding step by (simp add: algebra_simps)
  qed
qed

lemma pickSides_columns:
  "pickSides h r (ColumnExpr a # ColumnExpr b # rest)
     = Inr ([if r then b else a], UniqueID (columns h (if r then a else b)))"
  by (simp add: pickSides_def argColumn_def index_def)

lemma pickSides_not_column:
  "\<not> isColumn x \<or> \<not> isColumn y \<Longrightarrow> pickSides h r (x # y # rest) = Inl PanicInterfaceConversion"
  by (cases x; cases y) (simp_all add: pickSides_def argColumn_def index_def)

lemma NewRuntimeFilter_Inr:
  assumes "pickSides h (RightIsBuildSide (joins h bn)) (GetArgs p) = Inr (srcs, t)"
  shows "NewRuntimeFilter g h p bn
           = Inr (fst (newFilters bn srcs (GetRuntimeFilterTypes (joins h bn)) [] g h), t,
                  fst (snd (newFilters bn srcs (GetRuntimeFilterTypes (joins h bn)) [] g h)),
                  snd (snd (newFilters bn srcs (GetRuntimeFilterTypes (joins h bn)) [] g h)))"
  using assms by (simp add: NewRuntimeFilter_def split: prod.splits)

lemma NewRuntimeFilter_Inl:
  "pickSides h (RightIsBuildSide (joins h bn)) (GetArgs p) = Inl e
     \<Longrightarrow> NewRuntimeFilter g h p bn = Inl e"
  by (simp add: NewRuntimeFilter_def)

text \<open>
  C1. For a predicate whose two arguments are column references, \<open>NewRuntimeFilter\<close>
  returns one filter per enabled type; every one of them has the given join as its build
  node and, as its only source expression, the argument on the build side (the second
  argument when the right side is the build side, the first otherwise); and the returned
  target id is the unique id of the opposite argument's column. The columns themselves
  are left as they were.
\<close>
theorem NewRuntimeFilter_sides:
  assumes "GetArgs eqPredicate = [ColumnExpr a, ColumnExpr b]"
  shows "\<exists>rs g' h'.
           NewRuntimeFilter g h eqPredicate bn
             = Inr (rs, UniqueID (columns h (if RightIsBuildSide (joins h bn) then a else b)), g', h')
           \<and> columns h' = columns h
           \<and> length rs = length (GetRuntimeFilterTypes (joins h bn))
           \<and> map (\<lambda>r. srcExprList (filters h' r)) rs
               = replicate (length (GetRuntimeFilterTypes (joins h bn)))
                   [if RightIsBuildSide (joins h bn) then b else a]
           \<and> map (\<lambda>r. buildNode (filters h' r)) rs
               = replicate (length (GetRuntimeFilterTypes (joins h bn))) (Some bn)
           \<and> (\<forall>r \<in> set rs. srcExprList (filters h' r)
                               = [if RightIsBuildSide (joins h bn) then b else a])"
proof -
  let ?r = "RightIsBuildSide (joins h bn)"
  let ?ts = "GetRuntimeFilterTypes (joins h bn)"
  let ?N = "newFilters bn [if ?r then b else a] ?ts [] g h"
  have pick: "pickSides h ?r (GetArgs eqPredicate)
                = Inr ([if ?r then b else a], UniqueID (columns h (if ?r then a else b)))"
    unfolding assms by (rule pickSides_columns)
  have res: "NewRuntimeFilter g h eqPredicate bn
               = Inr (fst ?N, UniqueID (columns h (if ?r then a else b)), fst (snd ?N), snd (snd ?N))"
    by (rule NewRuntimeFilter_Inr [OF pick])
  have rs: "fst ?N = [next_filter h ..< next_filter h + length ?ts]"
    by (simp add: newFilters_result)
  have len: "length (fst ?N) = length ?ts"
    by (simp add: rs)
  have each: "\<forall>x \<in> set (fst ?N). srcExprList (filters (snd (snd ?N)) x) = [if ?r then b else a]"
    by (simp add: rs newFilters_filters)
  have srcs: "map (\<lambda>r. srcExprList (filters (snd (snd ?N)) r)) (fst ?N)
                = replicate (length ?ts) [if ?r then b else a]"
    by (rule nth_equalityI) (simp_all add: rs newFilters_filters)
  have bns: "map (\<lambda>r. buildNode (filters (snd (snd ?N)) r)) (fst ?N)
                = replicate (length ?ts) (Some bn)"
    by (rule nth_equalityI) (simp_all add: rs newFilters_filters)
  have cols: "columns (snd (snd ?N)) = columns h"
    by (rule newFilters_frame)
  from res cols len srcs bns each show ?thesis by blast
qed

theorem NewRuntimeFilter_sides_witness:
  "GetArgs pred0 = [ColumnExpr 0, ColumnExpr 1]
   \<and> (\<exists>rs g' h'. NewRuntimeFilter \<lparr>gen_id = 0\<rparr> plan0 pred0 0 = Inr (rs, 11, g', h')
         \<and> columns h' = columns plan0
         \<and> length rs = 2
         \<and> map (\<lambda>r. srcExprList (filters h' r)) rs = [[1], [1]]
         \<and> map (\<lambda>r. buildNode (filters h' r)) rs = [Some 0, Some 0]
         \<and> list_all (\<lambda>r. srcExprList (filters h' r) = [1]) rs)"
proof -
  have h: "GetArgs pred0 = [ColumnExpr 0, ColumnExpr 1]" by (simp add: pred0_def)
  show ?thesis
    using h NewRuntimeFilter_sides [OF h, of "\<lparr>gen_id = 0\<rparr>" plan0 0]
    by (simp add: plan0_def list_all_iff numeral_2_eq_2)
qed

text \<open>
  C2. For a predicate whose two arguments are column references and a configuration of
  k enabled types, \<open>NewRuntimeFilter\<close> returns k filters, distinct objects, whose types
  are the configuration list in its order; their ids are pairwise distinct and fresh
  (greater than every id the generator had issued, and issued by the returned
  generator); each has mode \<open>RFUnset\<close> and exactly one source expression.
\<close>
theorem NewRuntimeFilter_per_type:
  assumes "GetArgs eqPredicate = [ColumnExpr a, ColumnExpr b]"
  shows "\<exists>rs t g' h'.
           NewRuntimeFilter g h eqPredicate bn = Inr (rs, t, g', h')
           \<and> length rs = length (GetRuntimeFilterTypes (joins h bn))
           \<and> map (\<lambda>r. rfType (filters h' r)) rs = GetRuntimeFilterTypes (joins h bn)
           \<and> distinct rs
           \<and> distinct (map (\<lambda>r. rf_id (filters h' r)) rs)
           \<and> (\<forall>r \<in> set rs. gen_id g < rf_id (filters h' r)
                             \<and> rf_id (filters h' r) \<le> gen_id g'
                             \<and> rfMode (filters h' r) = RFUnset
                             \<and> length (srcExprList (filters h' r)) = 1)"
proof -
  let ?r = "RightIsBuildSide (joins h bn)"
  let ?ts = "GetRuntimeFilterTypes (joins h bn)"
  let ?N = "newFilters bn [if ?r then b else a] ?ts [] g h"
  let ?n = "next_filter h"
  have pick: "pickSides h ?r (GetArgs eqPredicate)
                = Inr ([if ?r then b else a], UniqueID (columns h (if ?r then a else b)))"
    unfolding assms by (rule pickSides_columns)
  have res: "NewRuntimeFilter g h eqPredicate bn
               = Inr (fst ?N, UniqueID (columns h (if ?r then a else b)), fst (snd ?N), snd (snd ?N))"
    by (rule NewRuntimeFilter_Inr [OF pick])
  have rs: "fst ?N = [?n ..< ?n + length ?ts]"
    by (simp add: newFilters_result)
  have len: "length (fst ?N) = length ?ts"
    by (simp add: rs)
  have types: "map (\<lambda>r. rfType (filters (snd (snd ?N)) r)) (fst ?N) = ?ts"
    by (rule nth_equalityI) (simp_all add: rs newFilters_filters)
  have ids: "map (\<lambda>r. rf_id (filters (snd (snd ?N)) r)) (fst ?N)
               = map (\<lambda>r. gen_id g + 1 + int (r - ?n)) [?n ..< ?n + length ?ts]"
    unfolding rs by (rule map_cong) (simp_all add: newFilters_filters)
  have "inj_on (\<lambda>r. gen_id g + 1 + int (r - ?n)) (set [?n ..< ?n + length ?ts])"
    by (rule inj_onI) simp
  then have dist: "distinct (map (\<lambda>r. rf_id (filters (snd (snd ?N)) r)) (fst ?N))"
    unfolding ids by (simp add: distinct_map)
  have each: "\<forall>r \<in> set (fst ?N). gen_id g < rf_id (filters (snd (snd ?N)) r)
                 \<and> rf_id (filters (snd (snd ?N)) r) \<le> gen_id (fst (snd ?N))
                 \<and> rfMode (filters (snd (snd ?N)) r) = RFUnset
                 \<and> length (srcExprList (filters (snd (snd ?N)) r)) = 1"
    by (auto simp: rs newFilters_filters newFilters_gen zero_RuntimeFilter_def)
  have "distinct (fst ?N)" by (simp add: rs)
  with res len types dist each show ?thesis by blast
qed

theorem NewRuntimeFilter_per_type_witness:
  "GetArgs pred0 = [ColumnExpr 0, ColumnExpr 1]
   \<and> (\<exists>rs t g' h'. NewRuntimeFilter \<lparr>gen_id = 0\<rparr> plan0 pred0 0 = Inr (rs, t, g', h')
         \<and> length rs = 2
         \<and> map (\<lambda>r. rfType (filters h' r)) rs = [In, MinMax]
         \<and> distinct rs
         \<and> distinct (map (\<lambda>r. rf_id (filters h' r)) rs)
         \<and> list_all (\<lambda>r. 0 < rf_id (filters h' r) \<and> rf_id (filters h' r) \<le> gen_id g'
                         \<and> rfMode (filters h' r) = RFUnset
                         \<and> length (srcExprList (filters h' r)) = 1) rs)"
proof -
  have h: "GetArgs pred0 = [ColumnExpr 0, ColumnExpr 1]" by (simp add: pred0_def)
  show ?thesis
    using h NewRuntimeFilter_per_type [OF h, of "\<lparr>gen_id = 0\<rparr>" plan0 0]
    by (simp add: plan0_def list_all_iff numeral_2_eq_2)
qed

lemma NewRuntimeFilter_never_ErrInternal:
  "NewRuntimeFilter g h p bn = Inl e \<Longrightarrow> \<not> isErrInternal e"
  by (auto simp: NewRuntimeFilter_def pickSides_def argColumn_def index_def
      split: sum.splits if_splits prod.splits elim!: asColumn.elims)


text \<open>
  C8, as stated, fails: on the predicate \<open>pred1\<close>, whose second argument is a constant,
  \<open>NewRuntimeFilter\<close> ends in the panic of the type assertion, which is not the planner's
  internal error \<open>ErrInternal\<close>.
\<close>
theorem NewRuntimeFilter_panic_counterexample:
  "GetArgs pred1 = [ColumnExpr 0, ConstantExpr]
   \<and> NewRuntimeFilter \<lparr>gen_id = 0\<rparr> plan0 pred1 0 = Inl PanicInterfaceConversion
   \<and> \<not> isErrInternal (projl (NewRuntimeFilter \<lparr>gen_id = 0\<rparr> plan0 pred1 0))"
  by (simp add: pred1_def NewRuntimeFilter_def pickSides_def argColumn_def index_def plan0_def)

text \<open>
  C8, amended. For a predicate with at least two arguments, \<open>NewRuntimeFilter\<close> fails
  exactly when one of the first two arguments is not a column reference, and it then
  ends in the panic of the type assertion and returns no filter. It has no error result:
  whatever its failure, it is never the planner's internal error \<open>ErrInternal\<close>.
\<close>
theorem NewRuntimeFilter_type_mismatch:
  assumes "GetArgs eqPredicate = x # y # rest"
  shows "(NewRuntimeFilter g h eqPredicate bn = Inl PanicInterfaceConversion)
           = (\<not> isColumn x \<or> \<not> isColumn y)
         \<and> isl (NewRuntimeFilter g h eqPredicate bn) = (\<not> isColumn x \<or> \<not> isColumn y)
         \<and> (\<forall>e. NewRuntimeFilter g h eqPredicate bn = Inl e \<longrightarrow> \<not> isErrInternal e)"
proof (intro conjI allI impI)
  show eq: "(NewRuntimeFilter g h eqPredicate bn = Inl PanicInterfaceConversion)
           = (\<not> isColumn x \<or> \<not> isColumn y)"
  proof (cases "isColumn x \<and> isColumn y")
    case True
    then obtain a b where xy: "x = ColumnExpr a" "y = ColumnExpr b"
      by (cases x; cases y) simp_all
    have pick: "pickSides h (RightIsBuildSide (joins h bn)) (GetArgs eqPredicate)
                  = Inr ([if RightIsBuildSide (joins h bn) then b else a],
                         UniqueID (columns h (if RightIsBuildSide (joins h bn) then a else b)))"
      unfolding assms xy by (rule pickSides_columns)
    show ?thesis
      using True by (simp add: NewRuntimeFilter_Inr [OF pick])
  next
    case False
    then have "pickSides h (RightIsBuildSide (joins h bn)) (GetArgs eqPredicate)
                 = Inl PanicInterfaceConversion"
      unfolding assms by (intro pickSides_not_column) simp
    then show ?thesis using False by (simp add: NewRuntimeFilter_Inl)
  qed
  show "isl (NewRuntimeFilter g h eqPredicate bn) = (\<not> isColumn x \<or> \<not> isColumn y)"
  proof (cases "isColumn x \<and> isColumn y")
    case True
    then obtain a b where xy: "x = ColumnExpr a" "y = ColumnExpr b"
      by (cases x; cases y) simp_all
    have pick: "pickSides h (RightIsBuildSide (joins h bn)) (GetArgs eqPredicate)
                  = Inr ([if RightIsBuildSide (joins h bn) then b else a],
                         UniqueID (columns h (if RightIsBuildSide (joins h bn) then a else b)))"
      unfolding assms xy by (rule pickSides_columns)
    show ?thesis
      using True by (simp add: NewRuntimeFilter_Inr [OF pick])
  next
    case False
    with eq show ?thesis by auto
  qed
next
  fix e
  assume "NewRuntimeFilter g h eqPredicate bn = Inl e"
  then show "\<not> isErrInternal e" by (rule NewRuntimeFilter_never_ErrInternal)
qed

theorem NewRuntimeFilter_type_mismatch_witness:
  "GetArgs pred1 = ColumnExpr 0 # ConstantExpr # []
   \<and> NewRuntimeFilter \<lparr>gen_id = 0\<rparr> plan0 pred1 0 = Inl PanicInterfaceConversion
   \<and> isl (NewRuntimeFilter \<lparr>gen_id = 0\<rparr> plan0 pred1 0)
   \<and> \<not> isErrInternal PanicInterfaceConversion"
proof -
  have h: "GetArgs pred1 = ColumnExpr 0 # ConstantExpr # []" by (simp add: pred1_def)
  show ?thesis
    using h NewRuntimeFilter_type_mismatch [OF h, of "\<lparr>gen_id = 0\<rparr>" plan0 0]
    by simp
qed

section \<open>Properties of assign\<close>

lemma assign_nil_target: "assign h rf None e = Inl PanicNilDereference"
  by (simp add: assign_def upd_filter_def Let_def)

lemma assign_nil_build:
  "buildNode (filters h rf) = None \<Longrightarrow> assign h rf (Some t) e = Inl PanicNilDereference"
  by (simp add: assign_def upd_filter_def upd_scan_def Let_def)

lemma assign_Some:
  assumes "buildNode (filters h rf) = Some b"
  shows "assign h rf (Some t) e
     = Inr (h\<lparr>filters := (filters h)(rf := (filters h rf)\<lparr>targetNode := Some t,
                                targetExprList := targetExprList (filters h rf) @ [e]\<rparr>),
             joins := (joins h)(b := (joins h b)\<lparr>hj_runtimeFilterList :=
                                hj_runtimeFilterList (joins h b) @ [rf]\<rparr>),
             scans := (scans h)(t := (scans h t)\<lparr>maxWaitTimeMs :=
                                (if ts_runtimeFilterList (scans h t) = [] then 10000
                                 else maxWaitTimeMs (scans h t)),
                                ts_runtimeFilterList := ts_runtimeFilterList (scans h t) @ [rf]\<rparr>)\<rparr>)"
  using assms by (simp add: assign_def upd_filter_def upd_scan_def upd_join_def Let_def)


lemma assign_Inr_cases:
  assumes "assign h rf tn e = Inr h1"
  shows "\<exists>t b. tn = Some t \<and> buildNode (filters h rf) = Some b"
proof -
  obtain t where t: "tn = Some t"
    using assms by (cases tn) (simp_all add: assign_nil_target)
  obtain b where b: "buildNode (filters h rf) = Some b"
    using assms unfolding t by (cases "buildNode (filters h rf)") (simp_all add: assign_nil_build)
  from t b show ?thesis by blast
qed

lemma assign_filters:
  assumes "assign h rf tn e = Inr h1"
  shows "filters h1 x = (if x = rf then (filters h rf)\<lparr>targetNode := tn,
                                targetExprList := targetExprList (filters h rf) @ [e]\<rparr>
                         else filters h x)"
proof -
  from assign_Inr_cases [OF assms] obtain t b where t: "tn = Some t"
    and b: "buildNode (filters h rf) = Some b" by blast
  show ?thesis
    using assms unfolding t by (auto simp: assign_Some [OF b])
qed

lemma generate_plan0:
  "NewRuntimeFilter \<lparr>gen_id = 0\<rparr> plan0 pred0 0 = Inr ([0, 1], 11, \<lparr>gen_id = 2\<rparr>, plan1)"
  by (simp add: plan1_def NewRuntimeFilter_def pickSides_def argColumn_def index_def
        pred0_def plan0_def GetNextID_def alloc_filter_def)

lemma plan1_simps:
  "filters plan1 0 = zero_RuntimeFilter\<lparr>rf_id := 1, buildNode := Some 0, srcExprList := [1], rfType := In\<rparr>"
  "filters plan1 (Suc 0) = zero_RuntimeFilter\<lparr>rf_id := 2, buildNode := Some 0, srcExprList := [1], rfType := MinMax\<rparr>"
  "scans plan1 = scans plan0"
  "joins plan1 = joins plan0"
  "columns plan1 = columns plan0"
  by (simp_all add: plan1_def NewRuntimeFilter_def pickSides_def argColumn_def index_def
        pred0_def plan0_def GetNextID_def alloc_filter_def)

lemma assign_plan1: "assign plan1 0 (Some 0) 0 = Inr plan2"
  by (simp add: plan2_def assign_Some [of plan1 0 0] plan1_simps)

lemma plan2_simps:
  "filters plan2 0 = zero_RuntimeFilter\<lparr>rf_id := 1, buildNode := Some 0, srcExprList := [1],
                        rfType := In, targetNode := Some 0, targetExprList := [0]\<rparr>"
  "filters plan2 (Suc 0) = filters plan1 (Suc 0)"
  "scans plan2 0 = \<lparr>ts_id = 7, ts_runtimeFilterList = [0], maxWaitTimeMs = 10000\<rparr>"
  "scans plan2 (Suc 0) = \<lparr>ts_id = 8, ts_runtimeFilterList = [], maxWaitTimeMs = 0\<rparr>"
  "columns plan2 = columns plan0"
  by (simp_all add: plan2_def assign_Some [of plan1 0 0] plan1_simps plan0_def zero_RuntimeFilter_def)



lemma assign_plan2': "assign plan2 1 (Some 0) 0 = Inr plan4"
  by (simp add: plan4_def assign_Some [of plan2 "Suc 0" 0] plan2_simps plan1_simps)

lemma plan4_simps:
  "scans plan4 0 = \<lparr>ts_id = 7, ts_runtimeFilterList = [0, 1], maxWaitTimeMs = 10000\<rparr>"
  by (simp_all add: plan4_def assign_Some [of plan2 "Suc 0" 0] plan2_simps plan1_simps)





lemma pickSides_Inr_length: "pickSides h r args = Inr (srcs, t) \<Longrightarrow> length srcs = 1"
  by (auto simp: pickSides_def split: if_splits sum.splits)

lemma NewRuntimeFilter_Inr_cases:
  assumes "NewRuntimeFilter g h p bn = Inr (rs, t, g', h')"
  shows "\<exists>srcs. length srcs = 1
    \<and> rs = [next_filter h ..< next_filter h + length (GetRuntimeFilterTypes (joins h bn))]
    \<and> (\<forall>a. filters h' a
           = (if next_filter h \<le> a
                 \<and> a < next_filter h + length (GetRuntimeFilterTypes (joins h bn))
              then zero_RuntimeFilter\<lparr>rf_id := gen_id g + 1 + int (a - next_filter h),
                     buildNode := Some bn, srcExprList := srcs,
                     rfType := GetRuntimeFilterTypes (joins h bn) ! (a - next_filter h)\<rparr>
              else filters h a))"
proof (cases "pickSides h (RightIsBuildSide (joins h bn)) (GetArgs p)")
  case (Inl e)
  with assms show ?thesis by (simp add: NewRuntimeFilter_Inl)
next
  case (Inr st)
  obtain srcs t0 where st: "st = (srcs, t0)" by (cases st)
  note pick = Inr [unfolded st]
  let ?N = "newFilters bn srcs (GetRuntimeFilterTypes (joins h bn)) [] g h"
  from assms have rs: "rs = fst ?N" and h': "h' = snd (snd ?N)"
    by (simp_all add: NewRuntimeFilter_Inr [OF pick])
  have "length srcs = 1" by (rule pickSides_Inr_length [OF pick])
  moreover have "rs = [next_filter h ..< next_filter h + length (GetRuntimeFilterTypes (joins h bn))]"
    by (simp add: rs newFilters_result)
  moreover have "\<forall>a. filters h' a
           = (if next_filter h \<le> a
                 \<and> a < next_filter h + length (GetRuntimeFilterTypes (joins h bn))
              then zero_RuntimeFilter\<lparr>rf_id := gen_id g + 1 + int (a - next_filter h),
                     buildNode := Some bn, srcExprList := srcs,
                     rfType := GetRuntimeFilterTypes (joins h bn) ! (a - next_filter h)\<rparr>
              else filters h a)"
    unfolding h' by (intro allI newFilters_filters)
  ultimately show ?thesis by blast
qed






text \<open>
  C5. An \<open>assign\<close> to a scan whose filter list is empty sets the scan's \<open>maxWaitTimeMs\<close>
  to 10000 (10 seconds); an \<open>assign\<close> to a scan that already has a filter leaves it
  unchanged. After any \<open>assign\<close> the scan's list holds the filter, so every later
  \<open>assign\<close> to the same scan leaves the budget unchanged.
\<close>
theorem assign_wait_budget:
  assumes "assign h rf (Some t) e = Inr h1"
  shows "(ts_runtimeFilterList (scans h t) = [] \<longrightarrow> maxWaitTimeMs (scans h1 t) = 10000)
         \<and> (ts_runtimeFilterList (scans h t) \<noteq> []
              \<longrightarrow> maxWaitTimeMs (scans h1 t) = maxWaitTimeMs (scans h t))
         \<and> ts_runtimeFilterList (scans h1 t) = ts_runtimeFilterList (scans h t) @ [rf]
         \<and> (\<forall>rf2 e2 h2. assign h1 rf2 (Some t) e2 = Inr h2
              \<longrightarrow> maxWaitTimeMs (scans h2 t) = maxWaitTimeMs (scans h1 t))"
proof -
  obtain b where b: "buildNode (filters h rf) = Some b"
    using assms by (cases "buildNode (filters h rf)") (simp_all add: assign_nil_build)
  have s1: "scans h1 t = (scans h t)\<lparr>maxWaitTimeMs :=
                                (if ts_runtimeFilterList (scans h t) = [] then 10000
                                 else maxWaitTimeMs (scans h t)),
                                ts_runtimeFilterList := ts_runtimeFilterList (scans h t) @ [rf]\<rparr>"
    using assms by (auto simp: assign_Some [OF b])
  have later: "maxWaitTimeMs (scans h2 t) = maxWaitTimeMs (scans h1 t)"
    if a2: "assign h1 rf2 (Some t) e2 = Inr h2" for rf2 e2 h2
  proof -
    obtain b2 where b2: "buildNode (filters h1 rf2) = Some b2"
      using a2 by (cases "buildNode (filters h1 rf2)") (simp_all add: assign_nil_build)
    show ?thesis
      using a2 by (auto simp: assign_Some [OF b2] s1)
  qed
  show ?thesis
    using later by (simp add: s1)
qed

theorem assign_wait_budget_witness:
  "assign plan1 0 (Some 0) 0 = Inr plan2
   \<and> ts_runtimeFilterList (scans plan1 0) = []
   \<and> maxWaitTimeMs (scans plan1 0) = 0
   \<and> maxWaitTimeMs (scans plan2 0) = 10000
   \<and> ts_runtimeFilterList (scans plan2 0) = [0]
   \<and> assign plan2 1 (Some 0) 0 = Inr plan4
   \<and> maxWaitTimeMs (scans plan4 0) = maxWaitTimeMs (scans plan2 0)"
  using assign_plan1 assign_plan2' assign_wait_budget [OF assign_plan1]
  by (simp add: plan1_simps plan0_def plan2_simps plan4_simps)

section \<open>Properties of the serializer\<close>

lemma exprsToPB_ok:
  "convertible conv h es
     \<Longrightarrow> exprsToPB conv str kind h es acc = Inr (acc @ map (\<lambda>c. the (conv (columns h c))) es)"
  by (induction es arbitrary: acc) (auto simp: convertible_def)

lemma exprsToPB_fail:
  "convertible conv h pre \<Longrightarrow> conv (columns h c) = None
     \<Longrightarrow> exprsToPB conv str kind h (pre @ c # post) acc
           = Inl (ErrInternal (''failed to transform '' @ kind @ '' expr '' @ str (columns h c)
                               @ '' to pb in runtime filter''))"
  by (induction pre arbitrary: acc) (auto simp: convertible_def)

lemma first_unconvertible:
  assumes "\<not> convertible conv h es"
  shows "\<exists>pre c post. es = pre @ c # post \<and> convertible conv h pre \<and> conv (columns h c) = None"
proof -
  from assms have "\<exists>x \<in> set es. conv (columns h x) = None"
    by (auto simp: convertible_def list_all_iff)
  then obtain pre c post where "es = pre @ c # post" "conv (columns h c) = None"
      "\<forall>y \<in> set pre. \<not> conv (columns h y) = None"
    by (rule split_list_first_propE)
  then show ?thesis by (auto simp: convertible_def list_all_iff)
qed

lemma ToPB_ok:
  assumes "filterConvertible conv h rf"
  shows "ToPB conv str h rf
     = Inr \<lparr>Id_pb = word_of_int (rf_id (filters h rf)),
            SourceExprList = map (\<lambda>c. the (conv (columns h c))) (srcExprList (filters h rf)),
            TargetExprList = map (\<lambda>c. the (conv (columns h c))) (targetExprList (filters h rf)),
            SourceExecutorId = Sprint (buildNodeID (filters h rf)),
            TargetExecutorId = Sprint (targetNodeID (filters h rf)),
            RfType = (case rfType (filters h rf) of
                        In \<Rightarrow> RuntimeFilterType_IN | MinMax \<Rightarrow> RuntimeFilterType_MIN_MAX),
            RfMode = (case rfMode (filters h rf) of
                        RFLocal \<Rightarrow> RuntimeFilterMode_LOCAL
                      | RFGlobal \<Rightarrow> RuntimeFilterMode_GLOBAL
                      | RFUnset \<Rightarrow> RuntimeFilterMode_LOCAL)\<rparr>"
  using assms by (simp add: ToPB_def filterConvertible_def exprsToPB_ok)

lemma ToPB_src_fail:
  assumes "srcExprList (filters h rf) = pre @ c # post" "convertible conv h pre"
    "conv (columns h c) = None"
  shows "ToPB conv str h rf
     = Inl (ErrInternal (''failed to transform src expr '' @ str (columns h c)
                         @ '' to pb in runtime filter''))"
  using exprsToPB_fail [OF assms(2,3), of str "''src''" post "[]"]
  by (simp add: ToPB_def assms(1))

lemma ToPB_target_fail:
  assumes "convertible conv h (srcExprList (filters h rf))"
    "targetExprList (filters h rf) = pre @ c # post" "convertible conv h pre"
    "conv (columns h c) = None"
  shows "ToPB conv str h rf
     = Inl (ErrInternal (''failed to transform target expr '' @ str (columns h c)
                         @ '' to pb in runtime filter''))"
  using exprsToPB_fail [OF assms(3,4), of str "''target''" post "[]"]
  by (simp add: ToPB_def assms(2) exprsToPB_ok [OF assms(1)])

lemma ToPB_fail:
  assumes "\<not> filterConvertible conv h rf"
  shows "\<exists>kind p c q.
           ((kind = ''src'' \<and> srcExprList (filters h rf) = p @ c # q)
            \<or> (kind = ''target'' \<and> convertible conv h (srcExprList (filters h rf))
                \<and> targetExprList (filters h rf) = p @ c # q))
           \<and> convertible conv h p \<and> conv (columns h c) = None
           \<and> ToPB conv str h rf
               = Inl (ErrInternal (''failed to transform '' @ kind @ '' expr '' @ str (columns h c)
                                   @ '' to pb in runtime filter''))"
proof (cases "convertible conv h (srcExprList (filters h rf))")
  case False
  then obtain p c q where *: "srcExprList (filters h rf) = p @ c # q" "convertible conv h p"
      "conv (columns h c) = None"
    using first_unconvertible by blast
  show ?thesis
    using * ToPB_src_fail [OF *, of str] by (intro exI [of _ "''src''"] exI [of _ p] exI [of _ c] exI [of _ q]) simp
next
  case True
  with assms have "\<not> convertible conv h (targetExprList (filters h rf))"
    by (simp add: filterConvertible_def)
  then obtain p c q where *: "targetExprList (filters h rf) = p @ c # q" "convertible conv h p"
      "conv (columns h c) = None"
    using first_unconvertible by blast
  show ?thesis
    using True * ToPB_target_fail [OF True *, of str]
    by (intro exI [of _ "''target''"] exI [of _ p] exI [of _ c] exI [of _ q]) simp
qed

lemma ToPB_isl: "isl (ToPB conv str h rf) = (\<not> filterConvertible conv h rf)"
proof (cases "filterConvertible conv h rf")
  case True
  then show ?thesis by (simp add: ToPB_ok)
next
  case False
  from ToPB_fail [OF this, of str] show ?thesis using False by auto
qed

lemma listToPB_ok:
  "list_all (filterConvertible conv h) rfs
     \<Longrightarrow> listToPB conv str h rfs acc = Inr (acc @ map (\<lambda>rf. projr (ToPB conv str h rf)) rfs)"
  by (induction rfs arbitrary: acc) (auto simp: ToPB_ok)

lemma listToPB_fail:
  "list_all (filterConvertible conv h) pre \<Longrightarrow> ToPB conv str h rf = Inl e
     \<Longrightarrow> listToPB conv str h (pre @ rf # post) acc = Inl e"
  by (induction pre arbitrary: acc) (auto simp: ToPB_ok)

lemma first_unconvertible_filter:
  assumes "\<not> list_all (filterConvertible conv h) rfs"
  shows "\<exists>pre rf post. rfs = pre @ rf # post \<and> list_all (filterConvertible conv h) pre
           \<and> \<not> filterConvertible conv h rf"
proof -
  from assms have "\<exists>x \<in> set rfs. \<not> filterConvertible conv h x"
    by (auto simp: list_all_iff)
  then obtain pre rf post where "rfs = pre @ rf # post" "\<not> filterConvertible conv h rf"
      "\<forall>y \<in> set pre. \<not> \<not> filterConvertible conv h y"
    by (rule split_list_first_propE)
  then show ?thesis by (auto simp: list_all_iff)
qed

text \<open>
  C7. \<open>RuntimeFilterListToPB\<close> on the empty list returns the empty list. When every
  expression of every filter converts, it returns one message per filter, in the order of
  the input: the i-th message is what \<open>ToPB\<close> returns for the i-th filter. Otherwise it
  returns an error and no message: the error of the first filter that has an unconvertible
  expression, which names that filter's first unconvertible expression by its text and
  says whether it is a source (\<open>src\<close>) or a target expression, the source list being
  converted first.
\<close>
theorem RuntimeFilterListToPB_all_or_error:
  "RuntimeFilterListToPB conv str h [] = Inr []
   \<and> (list_all (filterConvertible conv h) rfs \<longrightarrow>
        (\<exists>ms. RuntimeFilterListToPB conv str h rfs = Inr ms \<and> length ms = length rfs
              \<and> (\<forall>i < length rfs. ToPB conv str h (rfs ! i) = Inr (ms ! i))))
   \<and> (\<not> list_all (filterConvertible conv h) rfs \<longrightarrow>
        (\<exists>pre rf post kind p c q.
            rfs = pre @ rf # post \<and> list_all (filterConvertible conv h) pre
            \<and> ((kind = ''src'' \<and> srcExprList (filters h rf) = p @ c # q)
               \<or> (kind = ''target'' \<and> convertible conv h (srcExprList (filters h rf))
                   \<and> targetExprList (filters h rf) = p @ c # q))
            \<and> convertible conv h p \<and> conv (columns h c) = None
            \<and> RuntimeFilterListToPB conv str h rfs
                = Inl (ErrInternal (''failed to transform '' @ kind @ '' expr ''
                                    @ str (columns h c) @ '' to pb in runtime filter''))))"
proof (intro conjI impI)
  show "RuntimeFilterListToPB conv str h [] = Inr []"
    by (simp add: RuntimeFilterListToPB_def)
next
  assume ok: "list_all (filterConvertible conv h) rfs"
  let ?ms = "map (\<lambda>rf. projr (ToPB conv str h rf)) rfs"
  have "RuntimeFilterListToPB conv str h rfs = Inr ?ms"
    by (simp add: RuntimeFilterListToPB_def listToPB_ok [OF ok])
  moreover have "\<forall>i < length rfs. ToPB conv str h (rfs ! i) = Inr (?ms ! i)"
    using ok by (simp add: list_all_length ToPB_ok)
  ultimately show "\<exists>ms. RuntimeFilterListToPB conv str h rfs = Inr ms \<and> length ms = length rfs
              \<and> (\<forall>i < length rfs. ToPB conv str h (rfs ! i) = Inr (ms ! i))"
    by (intro exI [of _ ?ms]) simp
next
  assume "\<not> list_all (filterConvertible conv h) rfs"
  then obtain pre rf post where split: "rfs = pre @ rf # post"
      and pre: "list_all (filterConvertible conv h) pre" and bad: "\<not> filterConvertible conv h rf"
    using first_unconvertible_filter by blast
  from ToPB_fail [OF bad, of str] obtain kind p c q where
      k: "(kind = ''src'' \<and> srcExprList (filters h rf) = p @ c # q)
            \<or> (kind = ''target'' \<and> convertible conv h (srcExprList (filters h rf))
                \<and> targetExprList (filters h rf) = p @ c # q)"
      and p: "convertible conv h p" and c: "conv (columns h c) = None"
      and e: "ToPB conv str h rf
               = Inl (ErrInternal (''failed to transform '' @ kind @ '' expr '' @ str (columns h c)
                                   @ '' to pb in runtime filter''))"
    by blast
  have "RuntimeFilterListToPB conv str h rfs
          = Inl (ErrInternal (''failed to transform '' @ kind @ '' expr ''
                              @ str (columns h c) @ '' to pb in runtime filter''))"
    unfolding RuntimeFilterListToPB_def split by (rule listToPB_fail [OF pre e])
  with split pre k p c
  show "\<exists>pre rf post kind p c q.
            rfs = pre @ rf # post \<and> list_all (filterConvertible conv h) pre
            \<and> ((kind = ''src'' \<and> srcExprList (filters h rf) = p @ c # q)
               \<or> (kind = ''target'' \<and> convertible conv h (srcExprList (filters h rf))
                   \<and> targetExprList (filters h rf) = p @ c # q))
            \<and> convertible conv h p \<and> conv (columns h c) = None
            \<and> RuntimeFilterListToPB conv str h rfs
                = Inl (ErrInternal (''failed to transform '' @ kind @ '' expr ''
                                    @ str (columns h c) @ '' to pb in runtime filter''))"
    by blast
qed


lemma Sprint_0: "Sprint 0 = ''0''"
  by (simp add: Sprint_def digits.simps)

lemma Sprint_11: "Sprint 11 = ''11''"
  by (simp add: Sprint_def digits.simps)

lemma plan2_convertible:
  "filterConvertible conv0 plan2 0" "filterConvertible conv0 plan2 (Suc 0)"
  "filterConvertible conv1 plan2 (Suc 0)" "\<not> filterConvertible conv1 plan2 0"
  by (simp_all add: filterConvertible_def convertible_def plan2_simps plan1_simps plan0_def
        conv0_def conv1_def zero_RuntimeFilter_def)

lemma ToPB_plan2:
  "ToPB conv0 str0 plan2 0
     = Inr \<lparr>Id_pb = 1, SourceExprList = [22], TargetExprList = [11],
            SourceExecutorId = ''0'', TargetExecutorId = ''0'',
            RfType = RuntimeFilterType_IN, RfMode = RuntimeFilterMode_LOCAL\<rparr>"
  "ToPB conv0 str0 plan2 (Suc 0)
     = Inr \<lparr>Id_pb = 2, SourceExprList = [22], TargetExprList = [],
            SourceExecutorId = ''0'', TargetExecutorId = ''0'',
            RfType = RuntimeFilterType_MIN_MAX, RfMode = RuntimeFilterMode_LOCAL\<rparr>"
  "ToPB conv1 str0 plan2 0
     = Inl (ErrInternal ''failed to transform target expr 11 to pb in runtime filter'')"
  by (simp_all add: ToPB_def plan2_simps plan1_simps plan0_def conv0_def conv1_def str0_def
        zero_RuntimeFilter_def Sprint_0 Sprint_11)

theorem RuntimeFilterListToPB_all_or_error_witness:
  "list_all (filterConvertible conv0 plan2) [0, 1]
   \<and> RuntimeFilterListToPB conv0 str0 plan2 [0, 1]
       = Inr [\<lparr>Id_pb = 1, SourceExprList = [22], TargetExprList = [11],
                SourceExecutorId = ''0'', TargetExecutorId = ''0'',
                RfType = RuntimeFilterType_IN, RfMode = RuntimeFilterMode_LOCAL\<rparr>,
              \<lparr>Id_pb = 2, SourceExprList = [22], TargetExprList = [],
                SourceExecutorId = ''0'', TargetExecutorId = ''0'',
                RfType = RuntimeFilterType_MIN_MAX, RfMode = RuntimeFilterMode_LOCAL\<rparr>]
   \<and> \<not> list_all (filterConvertible conv1 plan2) [1, 0]
   \<and> RuntimeFilterListToPB conv1 str0 plan2 [1, 0]
       = Inl (ErrInternal ''failed to transform target expr 11 to pb in runtime filter'')"
  using RuntimeFilterListToPB_all_or_error [of conv0 str0 plan2 "[0, 1]"]
    RuntimeFilterListToPB_all_or_error [of conv1 str0 plan2 "[1, 0]"]
  by (simp add: plan2_convertible RuntimeFilterListToPB_def ToPB_plan2 ToPB_ok)

text \<open>
  C6, as stated, fails: filter 0 of \<open>plan2\<close> is assigned, its mode is \<open>RFUnset\<close>, and
  \<open>ToPB\<close> returns a message for it, with mode \<open>LOCAL\<close>.
\<close>
theorem ToPB_unset_counterexample:
  "targetNode (filters plan2 0) = Some 0
   \<and> rfMode (filters plan2 0) = RFUnset
   \<and> ToPB conv0 str0 plan2 0
       = Inr \<lparr>Id_pb = 1, SourceExprList = [22], TargetExprList = [11],
              SourceExecutorId = ''0'', TargetExecutorId = ''0'',
              RfType = RuntimeFilterType_IN, RfMode = RuntimeFilterMode_LOCAL\<rparr>"
  by (simp add: ToPB_plan2 plan2_simps zero_RuntimeFilter_def)

text \<open>
  C6, amended. The mode never makes \<open>ToPB\<close> fail: it fails exactly when a source or
  target expression does not convert. Every message it returns has wire mode \<open>LOCAL\<close>
  for \<open>RFLocal\<close>, \<open>GLOBAL\<close> for \<open>RFGlobal\<close>, and the default \<open>LOCAL\<close> for \<open>RFUnset\<close>.
\<close>
theorem ToPB_mode:
  "isl (ToPB conv str h rf) = (\<not> filterConvertible conv h rf)
   \<and> (\<forall>m. ToPB conv str h rf = Inr m \<longrightarrow>
         RfMode m = (case rfMode (filters h rf) of
                       RFLocal \<Rightarrow> RuntimeFilterMode_LOCAL
                     | RFGlobal \<Rightarrow> RuntimeFilterMode_GLOBAL
                     | RFUnset \<Rightarrow> RuntimeFilterMode_LOCAL))"
proof (intro conjI allI impI)
  show "isl (ToPB conv str h rf) = (\<not> filterConvertible conv h rf)"
    by (rule ToPB_isl)
next
  fix m
  assume m: "ToPB conv str h rf = Inr m"
  then have "filterConvertible conv h rf"
    using ToPB_isl [of conv str h rf] by auto
  from m [unfolded ToPB_ok [OF this]]
  show "RfMode m = (case rfMode (filters h rf) of
                       RFLocal \<Rightarrow> RuntimeFilterMode_LOCAL
                     | RFGlobal \<Rightarrow> RuntimeFilterMode_GLOBAL
                     | RFUnset \<Rightarrow> RuntimeFilterMode_LOCAL)"
    by auto
qed

theorem ToPB_mode_witness:
  "\<not> isl (ToPB conv0 str0 plan2 0) \<and> filterConvertible conv0 plan2 0
   \<and> rfMode (filters plan2 0) = RFUnset
   \<and> RfMode (projr (ToPB conv0 str0 plan2 0)) = RuntimeFilterMode_LOCAL
   \<and> rfMode (filters plan5 0) = RFGlobal
   \<and> RfMode (projr (ToPB conv0 str0 plan5 0)) = RuntimeFilterMode_GLOBAL
   \<and> isl (ToPB conv1 str0 plan2 0)"
proof -
  have g: "ToPB conv0 str0 plan5 0
     = Inr \<lparr>Id_pb = 1, SourceExprList = [22], TargetExprList = [11],
            SourceExecutorId = ''0'', TargetExecutorId = ''0'',
            RfType = RuntimeFilterType_IN, RfMode = RuntimeFilterMode_GLOBAL\<rparr>"
    by (simp add: ToPB_def plan5_def upd_filter_def plan2_simps plan0_def conv0_def
          zero_RuntimeFilter_def Sprint_0)
  have r: "rfMode (filters plan5 0) = RFGlobal"
    by (simp add: plan5_def upd_filter_def)
  show ?thesis
    using ToPB_mode [of conv0 str0 plan2 0] ToPB_mode [of conv0 str0 plan5 0]
      ToPB_mode [of conv1 str0 plan2 0]
    by (simp add: ToPB_plan2 g r plan2_simps plan2_convertible zero_RuntimeFilter_def)
qed

section \<open>Properties of Clone\<close>

lemma cloneExprs_result:
  "fst (cloneExprs es acc h) = acc @ [next_column h ..< next_column h + length es]"
proof (induction es arbitrary: acc h)
  case Nil
  show ?case by simp
next
  case (Cons e es)
  have "fst (cloneExprs (e # es) acc h)
          = (acc @ [next_column h]) @ [Suc (next_column h) ..< Suc (next_column h) + length es]"
    by (simp add: Column_Clone_def Cons.IH del: upt_Suc)
  also have "\<dots> = acc @ [next_column h ..< next_column h + length (e # es)]"
    using upt_Suc_front[of "next_column h" "length es"] by simp
  finally show ?case .
qed

lemma cloneExprs_frame:
  "filters (snd (cloneExprs es acc h)) = filters h"
  "joins (snd (cloneExprs es acc h)) = joins h"
  "scans (snd (cloneExprs es acc h)) = scans h"
  "next_filter (snd (cloneExprs es acc h)) = next_filter h"
  "next_column (snd (cloneExprs es acc h)) = next_column h + length es"
  by (induction es arbitrary: acc h; simp add: Column_Clone_def)+

lemma cloneExprs_columns:
  "\<forall>e \<in> set es. e < next_column h \<Longrightarrow>
   columns (snd (cloneExprs es acc h)) a
     = (if next_column h \<le> a \<and> a < next_column h + length es
        then columns h (es ! (a - next_column h)) else columns h a)"
proof (induction es arbitrary: acc h)
  case Nil
  show ?case by auto
next
  case (Cons e es)
  let ?n = "next_column h"
  let ?h1 = "h\<lparr>columns := (columns h)(?n := columns h e), next_column := Suc ?n\<rparr>"
  have wf1: "\<forall>x \<in> set es. x < next_column ?h1"
    using Cons.prems by auto
  have step: "columns (snd (cloneExprs (e # es) acc h)) a
          = (if Suc ?n \<le> a \<and> a < Suc ?n + length es
             then columns ?h1 (es ! (a - Suc ?n)) else columns ?h1 a)"
    using Cons.IH [OF wf1, of "acc @ [?n]"] by (simp add: Column_Clone_def)
  have old: "columns ?h1 (es ! k) = columns h (es ! k)" if "k < length es" for k
  proof -
    have "es ! k < ?n" using Cons.prems that by simp
    then show ?thesis by simp
  qed
  consider "a < ?n" | "a = ?n" | "Suc ?n \<le> a" by linarith
  then show ?case
  proof cases
    case 1
    then show ?thesis unfolding step by simp
  next
    case 2
    then show ?thesis unfolding step by simp
  next
    case 3
    then have d: "a - ?n = Suc (a - Suc ?n)" by simp
    show ?thesis
    proof (cases "a < Suc ?n + length es")
      case True
      with 3 have "a - Suc ?n < length es" by simp
      from old [OF this] 3 True d show ?thesis unfolding step by simp
    next
      case False
      with 3 show ?thesis unfolding step by simp
    qed
  qed
qed

lemma Clone_fst: "fst (Clone h rf) = next_filter h"
  by (simp add: Clone_def alloc_filter_def Let_def case_prod_beta)

lemma Clone_filter:
  assumes "rf < next_filter h"
  shows "filters (snd (Clone h rf)) a
     = (if a = next_filter h then
          \<lparr>rf_id = rf_id (filters h rf), buildNode = None,
           srcExprList = [next_column h ..< next_column h + length (srcExprList (filters h rf))],
           targetExprList =
             [next_column h + length (srcExprList (filters h rf)) ..<
              next_column h + length (srcExprList (filters h rf))
                + length (targetExprList (filters h rf))],
           rfType = rfType (filters h rf), rfMode = rfMode (filters h rf),
           targetNode = None,
           buildNodeID = (case buildNode (filters h rf) of
                            None \<Rightarrow> buildNodeID (filters h rf) | Some b \<Rightarrow> hj_id (joins h b)),
           targetNodeID = (case targetNode (filters h rf) of
                            None \<Rightarrow> targetNodeID (filters h rf) | Some t \<Rightarrow> ts_id (scans h t))\<rparr>
        else filters h a)"
  using assms
  by (simp add: Clone_def alloc_filter_def upd_filter_def Let_def case_prod_beta
        cloneExprs_frame cloneExprs_result zero_RuntimeFilter_def split: option.splits)


lemma Clone_frame:
  "joins (snd (Clone h rf)) = joins h"
  "scans (snd (Clone h rf)) = scans h"
  "next_filter (snd (Clone h rf)) = Suc (next_filter h)"
  by (simp_all add: Clone_def alloc_filter_def upd_filter_def Let_def case_prod_beta
        cloneExprs_frame split: option.splits)

lemma upd_filter_simps:
  "columns (upd_filter a f h) = columns h"
  "next_column (upd_filter a f h) = next_column h"
  "filters (upd_filter a f h) x = (if x = a then f (filters h a) else filters h x)"
  by (simp_all add: upd_filter_def)

lemma Clone_columns:
  assumes "allocated h rf"
  shows "columns (snd (Clone h rf)) a
     = (if next_column h \<le> a \<and> a < next_column h + length (srcExprList (filters h rf))
        then columns h (srcExprList (filters h rf) ! (a - next_column h))
        else if next_column h + length (srcExprList (filters h rf)) \<le> a
                \<and> a < next_column h + length (srcExprList (filters h rf))
                        + length (targetExprList (filters h rf))
        then columns h (targetExprList (filters h rf)
                          ! (a - (next_column h + length (srcExprList (filters h rf)))))
        else columns h a)"
proof -
  let ?src = "srcExprList (filters h rf)"
  let ?tgt = "targetExprList (filters h rf)"
  let ?n = "next_column h"
  from assms have ne: "rf \<noteq> next_filter h"
    and ws: "\<forall>e \<in> set ?src. e < ?n" and wt: "\<forall>e \<in> set ?tgt. e < ?n"
    by (auto simp: allocated_def list_all_iff)
  define c where "c = fst (alloc_filter h zero_RuntimeFilter)"
  define h0 where "h0 = snd (alloc_filter h zero_RuntimeFilter)"
  define h1 where "h1 = upd_filter c (\<lambda>x. x\<lparr>rf_id := rf_id (filters h0 rf)\<rparr>) h0"
  define h2 where "h2 = (case buildNode (filters h1 rf) of
                       None \<Rightarrow>
                         upd_filter c (\<lambda>x. x\<lparr>buildNodeID := buildNodeID (filters h1 rf)\<rparr>) h1
                     | Some b \<Rightarrow>
                         upd_filter c (\<lambda>x. x\<lparr>buildNodeID := hj_id (joins h1 b)\<rparr>) h1)"
  define h3 where "h3 = (case targetNode (filters h2 rf) of
                       None \<Rightarrow>
                         upd_filter c (\<lambda>x. x\<lparr>targetNodeID := targetNodeID (filters h2 rf)\<rparr>) h2
                     | Some t \<Rightarrow>
                         upd_filter c (\<lambda>x. x\<lparr>targetNodeID := ts_id (scans h2 t)\<rparr>) h2)"
  define h4 where "h4 = snd (cloneExprs (srcExprList (filters h3 rf)) (srcExprList (filters h3 c)) h3)"
  define srcs where "srcs = fst (cloneExprs (srcExprList (filters h3 rf)) (srcExprList (filters h3 c)) h3)"
  define h5 where "h5 = upd_filter c (\<lambda>x. x\<lparr>srcExprList := srcs\<rparr>) h4"
  define h6 where "h6 = snd (cloneExprs (targetExprList (filters h5 rf)) (targetExprList (filters h5 c)) h5)"
  have cl: "columns (snd (Clone h rf)) = columns h6"
    unfolding Clone_def Let_def case_prod_beta snd_conv
      h6_def h5_def srcs_def h4_def h3_def h2_def h1_def h0_def c_def
    by (simp only: upd_filter_simps)
  have c_eq: "c = next_filter h" by (simp add: c_def alloc_filter_def)
  have c0: "columns h0 = columns h" "next_column h0 = ?n" "filters h0 rf = filters h rf"
    using ne by (simp_all add: h0_def alloc_filter_def)
  have c1: "columns h1 = columns h" "next_column h1 = ?n" "filters h1 rf = filters h rf"
    using ne by (simp_all add: h1_def upd_filter_simps c0 c_eq)
  have c2: "columns h2 = columns h" "next_column h2 = ?n" "filters h2 rf = filters h rf"
    using ne by (simp_all add: h2_def upd_filter_simps c1 c_eq split: option.splits)
  have c3: "columns h3 = columns h" "next_column h3 = ?n" "filters h3 rf = filters h rf"
    using ne by (simp_all add: h3_def upd_filter_simps c2 c_eq split: option.splits)
  have ws3: "\<forall>e \<in> set ?src. e < next_column h3" using ws by (simp add: c3)
  have c4: "columns h4 x = (if ?n \<le> x \<and> x < ?n + length ?src
                              then columns h (?src ! (x - ?n)) else columns h x)" for x
    unfolding h4_def c3(3) using cloneExprs_columns [OF ws3] by (simp add: c3)
  have f4: "filters h4 rf = filters h rf" "next_column h4 = ?n + length ?src"
    by (simp_all add: h4_def cloneExprs_frame c3)
  have c5: "columns h5 = columns h4" "next_column h5 = ?n + length ?src"
    "filters h5 rf = filters h rf"
    using ne by (simp_all add: h5_def upd_filter_simps f4 c_eq)
  have wt5: "\<forall>e \<in> set ?tgt. e < next_column h5"
    using wt by (auto simp: c5)
  have c6: "columns h6 a
              = (if next_column h5 \<le> a \<and> a < next_column h5 + length ?tgt
                 then columns h5 (?tgt ! (a - next_column h5)) else columns h5 a)"
    unfolding h6_def c5(3) by (rule cloneExprs_columns [OF wt5])
  have old: "columns h5 (?tgt ! k) = columns h (?tgt ! k)" if "k < length ?tgt" for k
  proof -
    have "?tgt ! k < ?n" using wt that by simp
    then show ?thesis by (simp add: c5 c4)
  qed
  show ?thesis
  proof (cases "?n + length ?src \<le> a \<and> a < ?n + length ?src + length ?tgt")
    case True
    then have "a - (?n + length ?src) < length ?tgt" by auto
    from old [OF this] True show ?thesis
      unfolding cl c6 c5(2) by simp
  next
    case False
    then show ?thesis
      unfolding cl c6 c5(2) by (auto simp: c5 c4)
  qed
qed


text \<open>
  C9, amended. The clone of a filter of the plan is a new filter, and the original is
  left as it was. The clone has the id, type and mode of the original and no operator
  pointer. Its \<open>buildNodeID\<close> is the plan id of the build join when the original points to
  one and the original's \<open>buildNodeID\<close> otherwise; its \<open>targetNodeID\<close> follows the same
  rule with the target scan. Its expressions are new columns, pairwise distinct and
  distinct from all of the original's, with the values of the original's in the same
  order; so writing to an expression of the clone leaves the original's expressions as
  they were, and writing to an expression of the original leaves the clone's.
\<close>
theorem Clone_detached_copy:
  assumes "allocated h rf" and "Clone h rf = (c, h')"
  shows "c \<noteq> rf \<and> filters h' rf = filters h rf
         \<and> (\<forall>a < next_column h. columns h' a = columns h a)
         \<and> rf_id (filters h' c) = rf_id (filters h rf)
         \<and> rfType (filters h' c) = rfType (filters h rf)
         \<and> rfMode (filters h' c) = rfMode (filters h rf)
         \<and> buildNode (filters h' c) = None \<and> targetNode (filters h' c) = None
         \<and> buildNodeID (filters h' c)
             = (case buildNode (filters h rf) of
                  None \<Rightarrow> buildNodeID (filters h rf) | Some b \<Rightarrow> hj_id (joins h b))
         \<and> targetNodeID (filters h' c)
             = (case targetNode (filters h rf) of
                  None \<Rightarrow> targetNodeID (filters h rf) | Some t \<Rightarrow> ts_id (scans h t))
         \<and> map (columns h') (srcExprList (filters h' c))
             = map (columns h) (srcExprList (filters h rf))
         \<and> map (columns h') (targetExprList (filters h' c))
             = map (columns h) (targetExprList (filters h rf))
         \<and> distinct (srcExprList (filters h' c) @ targetExprList (filters h' c))
         \<and> set (srcExprList (filters h' c) @ targetExprList (filters h' c))
             \<inter> set (srcExprList (filters h rf) @ targetExprList (filters h rf)) = {}
         \<and> (\<forall>x v. x \<in> set (srcExprList (filters h' c) @ targetExprList (filters h' c)) \<longrightarrow>
               map ((columns h')(x := v)) (srcExprList (filters h' rf) @ targetExprList (filters h' rf))
                 = map (columns h) (srcExprList (filters h rf) @ targetExprList (filters h rf)))
         \<and> (\<forall>y v. y \<in> set (srcExprList (filters h' rf) @ targetExprList (filters h' rf)) \<longrightarrow>
               map ((columns h')(y := v)) (srcExprList (filters h' c) @ targetExprList (filters h' c))
                 = map (columns h') (srcExprList (filters h' c) @ targetExprList (filters h' c)))"
proof -
  let ?src = "srcExprList (filters h rf)"
  let ?tgt = "targetExprList (filters h rf)"
  let ?n = "next_column h"
  from assms(1) have lt: "rf < next_filter h"
    and ws: "\<forall>e \<in> set ?src. e < ?n" and wt: "\<forall>e \<in> set ?tgt. e < ?n"
    by (auto simp: allocated_def list_all_iff)
  from assms(2) have c: "c = next_filter h" and h': "h' = snd (Clone h rf)"
    using Clone_fst [of h rf] by simp_all
  have ne: "c \<noteq> rf" using lt c by simp
  have orig: "filters h' rf = filters h rf"
    using ne by (simp add: h' c Clone_filter [OF lt])
  have cf: "filters h' c
     = \<lparr>rf_id = rf_id (filters h rf), buildNode = None,
        srcExprList = [?n ..< ?n + length ?src],
        targetExprList = [?n + length ?src ..< ?n + length ?src + length ?tgt],
        rfType = rfType (filters h rf), rfMode = rfMode (filters h rf),
        targetNode = None,
        buildNodeID = (case buildNode (filters h rf) of
                         None \<Rightarrow> buildNodeID (filters h rf) | Some b \<Rightarrow> hj_id (joins h b)),
        targetNodeID = (case targetNode (filters h rf) of
                         None \<Rightarrow> targetNodeID (filters h rf) | Some t \<Rightarrow> ts_id (scans h t))\<rparr>"
    by (simp add: h' c Clone_filter [OF lt])
  have cols: "\<And>a. columns h' a
     = (if ?n \<le> a \<and> a < ?n + length ?src then columns h (?src ! (a - ?n))
        else if ?n + length ?src \<le> a \<and> a < ?n + length ?src + length ?tgt
        then columns h (?tgt ! (a - (?n + length ?src)))
        else columns h a)"
    unfolding h' by (rule Clone_columns [OF assms(1)])
  have keep: "\<forall>a < ?n. columns h' a = columns h a"
    by (simp add: cols)
  have msrc: "map (columns h') [?n ..< ?n + length ?src] = map (columns h) ?src"
    by (rule nth_equalityI) (simp_all add: cols)
  have mtgt: "map (columns h') [?n + length ?src ..< ?n + length ?src + length ?tgt]
                = map (columns h) ?tgt"
    by (rule nth_equalityI) (simp_all add: cols)
  have dist: "distinct ([?n ..< ?n + length ?src]
                 @ [?n + length ?src ..< ?n + length ?src + length ?tgt])"
    by auto
  have disj: "set ([?n ..< ?n + length ?src]
                 @ [?n + length ?src ..< ?n + length ?src + length ?tgt])
                \<inter> set (?src @ ?tgt) = {}"
    using ws wt by fastforce
  have mo: "map (columns h') (?src @ ?tgt) = map (columns h) (?src @ ?tgt)"
    using ws wt keep by (intro map_cong) auto
  have m1: "map ((columns h')(x := v)) (?src @ ?tgt) = map (columns h) (?src @ ?tgt)"
    if "x \<in> set ([?n ..< ?n + length ?src]
                 @ [?n + length ?src ..< ?n + length ?src + length ?tgt])" for x v
  proof -
    have "x \<notin> set (?src @ ?tgt)" using that disj by blast
    then have "map ((columns h')(x := v)) (?src @ ?tgt) = map (columns h') (?src @ ?tgt)"
      by (intro map_cong) auto
    then show ?thesis by (simp only: mo)
  qed
  have m2: "map ((columns h')(y := v)) ([?n ..< ?n + length ?src]
                 @ [?n + length ?src ..< ?n + length ?src + length ?tgt])
             = map (columns h') ([?n ..< ?n + length ?src]
                 @ [?n + length ?src ..< ?n + length ?src + length ?tgt])"
    if "y \<in> set (?src @ ?tgt)" for y v
  proof -
    have "y \<notin> set ([?n ..< ?n + length ?src]
                 @ [?n + length ?src ..< ?n + length ?src + length ?tgt])"
      using that disj by blast
    then show ?thesis by (intro map_cong) auto
  qed
  show ?thesis
    unfolding orig cf RuntimeFilter.simps
    using ne orig keep msrc mtgt dist disj m1 m2 by (intro conjI allI impI) simp_all
qed


lemma plan1_next: "next_filter plan1 = 2" "next_column plan1 = 2"
  by (simp_all add: plan1_def NewRuntimeFilter_def pickSides_def argColumn_def index_def
        pred0_def plan0_def GetNextID_def alloc_filter_def)

lemma plan2_next:
  "next_filter plan2 = 2" "next_column plan2 = 2" "hj_id (joins plan2 0) = 2"
  by (simp_all add: plan2_def assign_Some [of plan1 0 0] plan1_simps plan1_next plan0_def)

lemma allocated_plan2: "allocated plan2 0" "allocated plan2 (Suc 0)"
  by (simp_all add: allocated_def plan2_next plan2_simps plan1_simps zero_RuntimeFilter_def)

lemma plan6_simps:
  "filters plan6 2 = \<lparr>rf_id = 1, buildNode = None, srcExprList = [2], targetExprList = [3],
                      rfType = In, rfMode = RFUnset, targetNode = None,
                      buildNodeID = 2, targetNodeID = 7\<rparr>"
  "filters plan6 0 = filters plan2 0"
  "next_filter plan6 = 3"
  "scans plan6 = scans plan2"
  by (simp_all add: plan6_def Clone_filter Clone_frame plan2_next plan2_simps
        zero_RuntimeFilter_def upt_rec)

lemma Clone_next_column:
  assumes "rf < next_filter h"
  shows "next_column (snd (Clone h rf))
           = next_column h + length (srcExprList (filters h rf))
               + length (targetExprList (filters h rf))"
  using assms
  by (simp add: Clone_def alloc_filter_def upd_filter_def Let_def case_prod_beta
        cloneExprs_frame split: option.splits)

lemma plan6_next: "next_column plan6 = 4"
  by (simp add: plan6_def Clone_next_column plan2_next plan2_simps zero_RuntimeFilter_def)

lemma plan7_simps:
  "filters plan7 3 = \<lparr>rf_id = 1, buildNode = None, srcExprList = [4], targetExprList = [5],
                      rfType = In, rfMode = RFUnset, targetNode = None,
                      buildNodeID = 2, targetNodeID = 7\<rparr>"
  by (simp_all add: plan7_def Clone_filter Clone_frame plan6_simps plan6_next upt_rec)

lemma plan8_simps:
  "filters plan8 2 = \<lparr>rf_id = 2, buildNode = None, srcExprList = [2], targetExprList = [],
                      rfType = MinMax, rfMode = RFUnset, targetNode = None,
                      buildNodeID = 2, targetNodeID = 0\<rparr>"
  by (simp_all add: plan8_def Clone_filter Clone_frame plan2_next plan2_simps plan1_simps
        zero_RuntimeFilter_def upt_rec)

lemma Clone_pair: "Clone h rf = (next_filter h, snd (Clone h rf))"
  using Clone_fst [of h rf] by (cases "Clone h rf") simp

text \<open>
  C9, as stated, fails: the clone of filter 0 (filter 2 of \<open>plan6\<close>) has no target
  operator, and cloning it gives a filter whose \<open>targetNodeID\<close> is 7, the plan id of scan 0,
  copied from the detached field; the unassigned filter 1 has no target operator either,
  and its clone has \<open>targetNodeID\<close> 0. An absent target operator gives no fixed marker.
\<close>
theorem Clone_no_sentinel_counterexample:
  "targetNode (filters plan2 0) = Some 0 \<and> ts_id (scans plan2 0) = 7
   \<and> Clone plan2 0 = (2, plan6)
   \<and> targetNode (filters plan6 2) = None
   \<and> Clone plan6 2 = (3, plan7)
   \<and> targetNodeID (filters plan7 3) = 7
   \<and> targetNode (filters plan2 1) = None
   \<and> Clone plan2 1 = (2, plan8)
   \<and> targetNodeID (filters plan8 2) = 0"
proof -
  have c6: "Clone plan2 0 = (2, plan6)"
    unfolding plan6_def using Clone_pair [of plan2 0] by (simp add: plan2_next)
  have c7: "Clone plan6 2 = (3, plan7)"
    unfolding plan7_def using Clone_pair [of plan6 2] by (simp add: plan6_simps)
  have c8: "Clone plan2 1 = (2, plan8)"
    unfolding plan8_def using Clone_pair [of plan2 1] by (simp add: plan2_next)
  show ?thesis
    using c6 c7 c8
    by (simp add: plan2_simps plan6_simps plan7_simps plan8_simps plan1_simps
          zero_RuntimeFilter_def)
qed

theorem Clone_detached_copy_witness:
  "allocated plan2 0 \<and> Clone plan2 0 = (2, plan6)
   \<and> filters plan6 0 = filters plan2 0
   \<and> rf_id (filters plan6 2) = 1 \<and> rfType (filters plan6 2) = In
   \<and> rfMode (filters plan6 2) = RFUnset
   \<and> buildNode (filters plan6 2) = None \<and> targetNode (filters plan6 2) = None
   \<and> buildNodeID (filters plan6 2) = 2 \<and> targetNodeID (filters plan6 2) = 7
   \<and> srcExprList (filters plan2 0) = [1] \<and> targetExprList (filters plan2 0) = [0]
   \<and> srcExprList (filters plan6 2) = [2] \<and> targetExprList (filters plan6 2) = [3]
   \<and> map (columns plan6) [2, 3] = map (columns plan2) [1, 0]
   \<and> map ((columns plan6)(2 := \<lparr>UniqueID = 99\<rparr>)) [1, 0] = map (columns plan2) [1, 0]
   \<and> map ((columns plan6)(0 := \<lparr>UniqueID = 99\<rparr>)) [2, 3] = map (columns plan6) [2, 3]"
proof -
  have c: "Clone plan2 0 = (2, plan6)"
    using Clone_pair [of plan2 0] by (simp add: plan2_next plan6_def)
  show ?thesis
    using allocated_plan2(1) c Clone_detached_copy [OF allocated_plan2(1) c]
    by (simp add: plan2_simps plan6_simps plan2_next zero_RuntimeFilter_def)
qed

section \<open>Detached identifiers in the wire message\<close>

text \<open>
  C10, as stated, fails: filter 0 of \<open>plan2\<close> comes from the generator and \<open>assign\<close>, it was
  never cloned, and \<open>ToPB\<close> with a converter that has no wire form for its target column
  returns an error.
\<close>
theorem ToPB_uncloned_counterexample:
  "buildNode (filters plan2 0) = Some 0 \<and> targetNode (filters plan2 0) = Some 0
   \<and> buildNodeID (filters plan2 0) = 0 \<and> targetNodeID (filters plan2 0) = 0
   \<and> ToPB conv1 str0 plan2 0
       = Inl (ErrInternal ''failed to transform target expr 11 to pb in runtime filter'')"
  by (simp add: ToPB_plan2 plan2_simps zero_RuntimeFilter_def)

lemma conv0_convertible: "filterConvertible conv0 h rf"
  by (simp add: filterConvertible_def convertible_def list_all_iff conv0_def)

lemma Sprint_2_7: "Sprint 2 = ''2''" "Sprint 7 = ''7''"
  by (simp_all add: Sprint_def digits.simps)

lemma ToPB_ids:
  assumes "ToPB conv str k a = Inr m"
  shows "SourceExecutorId m = Sprint (buildNodeID (filters k a))"
    and "TargetExecutorId m = Sprint (targetNodeID (filters k a))"
proof -
  from assms have "filterConvertible conv k a"
    using ToPB_isl [of conv str k a] by auto
  from assms [unfolded ToPB_ok [OF this]]
  show "SourceExecutorId m = Sprint (buildNodeID (filters k a))"
    and "TargetExecutorId m = Sprint (targetNodeID (filters k a))"
    by auto
qed

text \<open>
  C10, amended. The executor identifiers of a message are the decimal strings of the
  filter's detached fields \<open>buildNodeID\<close> and \<open>targetNodeID\<close>, whatever operators the filter
  points to. \<open>assign\<close> leaves these fields of every filter as they were; the generator
  creates its filters with both fields 0 and leaves every other filter as it was; \<open>Clone\<close>
  writes them, in the clone only, from the plan ids of the operators. So a filter
  returned by the generator, before and after \<open>assign\<close> has linked it to a target scan,
  has both fields 0; \<open>ToPB\<close> fails on it exactly when an expression does not convert, and
  otherwise both executor identifiers of the message are the string \<open>0\<close>.
\<close>
theorem ToPB_uncloned_ids:
  "(ToPB conv str k a = Inr m \<longrightarrow>
      SourceExecutorId m = Sprint (buildNodeID (filters k a))
      \<and> TargetExecutorId m = Sprint (targetNodeID (filters k a)))
   \<and> isl (ToPB conv str k a) = (\<not> filterConvertible conv k a)
   \<and> (assign k a' tn' e' = Inr k' \<longrightarrow>
        buildNodeID (filters k' x) = buildNodeID (filters k x)
        \<and> targetNodeID (filters k' x) = targetNodeID (filters k x))
   \<and> (NewRuntimeFilter g h p bn = Inr (rs, t, g', h') \<longrightarrow>
        (\<forall>r \<in> set rs. buildNodeID (filters h' r) = 0 \<and> targetNodeID (filters h' r) = 0)
        \<and> (\<forall>y. y \<notin> set rs \<longrightarrow> filters h' y = filters h y))
   \<and> (c0 < next_filter h0 \<longrightarrow>
        buildNodeID (filters (snd (Clone h0 c0)) (fst (Clone h0 c0)))
          = (case buildNode (filters h0 c0) of
               None \<Rightarrow> buildNodeID (filters h0 c0) | Some b \<Rightarrow> hj_id (joins h0 b))
        \<and> targetNodeID (filters (snd (Clone h0 c0)) (fst (Clone h0 c0)))
          = (case targetNode (filters h0 c0) of
               None \<Rightarrow> targetNodeID (filters h0 c0) | Some s \<Rightarrow> ts_id (scans h0 s))
        \<and> (\<forall>y. y \<noteq> fst (Clone h0 c0) \<longrightarrow> filters (snd (Clone h0 c0)) y = filters h0 y))
   \<and> (buildNodeID (filters k a) = 0 \<and> targetNodeID (filters k a) = 0
        \<and> filterConvertible conv k a \<longrightarrow>
        (\<exists>m0. ToPB conv str k a = Inr m0
           \<and> SourceExecutorId m0 = ''0'' \<and> TargetExecutorId m0 = ''0''))
   \<and> (NewRuntimeFilter g h p bn = Inr (rs, t, g', h') \<and> rf \<in> set rs \<longrightarrow>
        (filterConvertible conv h' rf \<longrightarrow>
           (\<exists>m1. ToPB conv str h' rf = Inr m1
              \<and> SourceExecutorId m1 = ''0'' \<and> TargetExecutorId m1 = ''0''))
        \<and> (\<exists>h''. assign h' rf (Some tn) e = Inr h''
              \<and> buildNode (filters h'' rf) = Some bn \<and> targetNode (filters h'' rf) = Some tn
              \<and> buildNodeID (filters h'' rf) = 0 \<and> targetNodeID (filters h'' rf) = 0
              \<and> (filterConvertible conv h'' rf \<longrightarrow>
                   (\<exists>m2. ToPB conv str h'' rf = Inr m2
                      \<and> SourceExecutorId m2 = ''0'' \<and> TargetExecutorId m2 = ''0''))
              \<and> isl (ToPB conv str h'' rf) = (\<not> filterConvertible conv h'' rf)))"
proof -
  have p1: "ToPB conv str k a = Inr m \<longrightarrow>
      SourceExecutorId m = Sprint (buildNodeID (filters k a))
      \<and> TargetExecutorId m = Sprint (targetNodeID (filters k a))"
    using ToPB_ids by blast
  have p2: "isl (ToPB conv str k a) = (\<not> filterConvertible conv k a)"
    by (rule ToPB_isl)
  have p3: "assign k a' tn' e' = Inr k' \<longrightarrow>
        buildNodeID (filters k' x) = buildNodeID (filters k x)
        \<and> targetNodeID (filters k' x) = targetNodeID (filters k x)"
    by (simp add: assign_filters)
  have gen: "(\<forall>r \<in> set rs. buildNodeID (filters h' r) = 0 \<and> targetNodeID (filters h' r) = 0
                 \<and> buildNode (filters h' r) = Some bn)
        \<and> (\<forall>y. y \<notin> set rs \<longrightarrow> filters h' y = filters h y)"
    if g: "NewRuntimeFilter g h p bn = Inr (rs, t, g', h')"
  proof -
    from g obtain srcs where
        rs: "rs = [next_filter h ..< next_filter h + length (GetRuntimeFilterTypes (joins h bn))]"
      and fl: "\<And>a. filters h' a
           = (if next_filter h \<le> a
                 \<and> a < next_filter h + length (GetRuntimeFilterTypes (joins h bn))
              then zero_RuntimeFilter\<lparr>rf_id := gen_id g + 1 + int (a - next_filter h),
                     buildNode := Some bn, srcExprList := srcs,
                     rfType := GetRuntimeFilterTypes (joins h bn) ! (a - next_filter h)\<rparr>
              else filters h a)"
      using NewRuntimeFilter_Inr_cases by blast
    show ?thesis
      by (auto simp: rs fl zero_RuntimeFilter_def)
  qed
  have p4: "NewRuntimeFilter g h p bn = Inr (rs, t, g', h') \<longrightarrow>
        (\<forall>r \<in> set rs. buildNodeID (filters h' r) = 0 \<and> targetNodeID (filters h' r) = 0)
        \<and> (\<forall>y. y \<notin> set rs \<longrightarrow> filters h' y = filters h y)"
    using gen by blast
  have p5: "c0 < next_filter h0 \<longrightarrow>
        buildNodeID (filters (snd (Clone h0 c0)) (fst (Clone h0 c0)))
          = (case buildNode (filters h0 c0) of
               None \<Rightarrow> buildNodeID (filters h0 c0) | Some b \<Rightarrow> hj_id (joins h0 b))
        \<and> targetNodeID (filters (snd (Clone h0 c0)) (fst (Clone h0 c0)))
          = (case targetNode (filters h0 c0) of
               None \<Rightarrow> targetNodeID (filters h0 c0) | Some s \<Rightarrow> ts_id (scans h0 s))
        \<and> (\<forall>y. y \<noteq> fst (Clone h0 c0) \<longrightarrow> filters (snd (Clone h0 c0)) y = filters h0 y)"
    by (simp add: Clone_fst Clone_filter)
  have zero: "\<exists>m0. ToPB conv str k0 a0 = Inr m0
           \<and> SourceExecutorId m0 = ''0'' \<and> TargetExecutorId m0 = ''0''"
    if "buildNodeID (filters k0 a0) = 0" "targetNodeID (filters k0 a0) = 0"
      "filterConvertible conv k0 a0" for k0 a0
    using that by (simp add: ToPB_ok Sprint_0)
  have p6: "buildNodeID (filters k a) = 0 \<and> targetNodeID (filters k a) = 0
        \<and> filterConvertible conv k a \<longrightarrow>
        (\<exists>m0. ToPB conv str k a = Inr m0
           \<and> SourceExecutorId m0 = ''0'' \<and> TargetExecutorId m0 = ''0'')"
    using zero by blast
  have p7: "(filterConvertible conv h' rf \<longrightarrow>
           (\<exists>m1. ToPB conv str h' rf = Inr m1
              \<and> SourceExecutorId m1 = ''0'' \<and> TargetExecutorId m1 = ''0''))
        \<and> (\<exists>h''. assign h' rf (Some tn) e = Inr h''
              \<and> buildNode (filters h'' rf) = Some bn \<and> targetNode (filters h'' rf) = Some tn
              \<and> buildNodeID (filters h'' rf) = 0 \<and> targetNodeID (filters h'' rf) = 0
              \<and> (filterConvertible conv h'' rf \<longrightarrow>
                   (\<exists>m2. ToPB conv str h'' rf = Inr m2
                      \<and> SourceExecutorId m2 = ''0'' \<and> TargetExecutorId m2 = ''0''))
              \<and> isl (ToPB conv str h'' rf) = (\<not> filterConvertible conv h'' rf))"
    if g: "NewRuntimeFilter g h p bn = Inr (rs, t, g', h')" and mem: "rf \<in> set rs"
  proof -
    from gen [OF g] mem have ids: "buildNodeID (filters h' rf) = 0"
        "targetNodeID (filters h' rf) = 0" and b: "buildNode (filters h' rf) = Some bn"
      by auto
    obtain h'' where a: "assign h' rf (Some tn) e = Inr h''"
      by (simp add: assign_Some [OF b])
    have f: "filters h'' rf = (filters h' rf)\<lparr>targetNode := Some tn,
                                targetExprList := targetExprList (filters h' rf) @ [e]\<rparr>"
      by (simp add: assign_filters [OF a])
    have ids': "buildNodeID (filters h'' rf) = 0" "targetNodeID (filters h'' rf) = 0"
      "buildNode (filters h'' rf) = Some bn" "targetNode (filters h'' rf) = Some tn"
      by (simp_all add: f ids b)
    show ?thesis
      using a ids' zero [OF ids] zero [OF ids'(1,2)] ToPB_isl [of conv str h'' rf]
      by (intro conjI exI [of _ h'']) blast+
  qed
  from p1 p2 p3 p4 p5 p6 p7 show ?thesis by blast
qed

theorem ToPB_uncloned_ids_witness:
  "\<not> isl (ToPB conv0 str0 plan6 2) \<and> filterConvertible conv0 plan6 2
   \<and> buildNodeID (filters plan6 2) = 2 \<and> targetNodeID (filters plan6 2) = 7
   \<and> SourceExecutorId (projr (ToPB conv0 str0 plan6 2)) = ''2''
   \<and> TargetExecutorId (projr (ToPB conv0 str0 plan6 2)) = ''7''
   \<and> assign plan1 0 (Some 0) 0 = Inr plan2
   \<and> buildNodeID (filters plan2 0) = buildNodeID (filters plan1 0)
   \<and> targetNodeID (filters plan2 0) = targetNodeID (filters plan1 0)
   \<and> NewRuntimeFilter \<lparr>gen_id = 0\<rparr> plan0 pred0 0 = Inr ([0, 1], 11, \<lparr>gen_id = 2\<rparr>, plan1)
   \<and> list_all (\<lambda>r. buildNodeID (filters plan1 r) = 0 \<and> targetNodeID (filters plan1 r) = 0) [0, 1]
   \<and> filters plan1 5 = filters plan0 5
   \<and> 0 < next_filter plan2 \<and> fst (Clone plan2 0) = 2
   \<and> buildNode (filters plan2 0) = Some 0 \<and> hj_id (joins plan2 0) = 2
   \<and> targetNode (filters plan2 0) = Some 0 \<and> ts_id (scans plan2 0) = 7
   \<and> filters plan6 0 = filters plan2 0
   \<and> 0 \<in> set [0, 1 :: nat]
   \<and> filterConvertible conv0 plan1 0
   \<and> (\<exists>m1. ToPB conv0 str0 plan1 0 = Inr m1
         \<and> SourceExecutorId m1 = ''0'' \<and> TargetExecutorId m1 = ''0'')
   \<and> filterConvertible conv0 plan2 0
   \<and> (\<exists>m2. ToPB conv0 str0 plan2 0 = Inr m2
         \<and> SourceExecutorId m2 = ''0'' \<and> TargetExecutorId m2 = ''0'')
   \<and> isl (ToPB conv1 str0 plan2 0)"
proof -
  have m: "0 \<in> set [0, 1 :: nat]" by simp
  have t6: "ToPB conv0 str0 plan6 2 = Inr (projr (ToPB conv0 str0 plan6 2))"
    by (simp add: ToPB_ok conv0_convertible)
  have n5: "(5::nat) \<notin> set [0, 1]" by simp
  note T = ToPB_uncloned_ids [where conv = conv0 and str = str0 and k = plan6 and a = 2
        and m = "projr (ToPB conv0 str0 plan6 2)"
        and a' = 0 and tn' = "Some 0" and e' = 0 and k' = plan2 and x = 0
        and g = "\<lparr>gen_id = 0\<rparr>" and h = plan0 and p = pred0 and bn = 0 and rs = "[0, 1]"
        and t = 11 and g' = "\<lparr>gen_id = 2\<rparr>" and h' = plan1
        and ?c0.0 = 0 and ?h0.0 = plan2 and rf = 0 and tn = 0 and e = 0]
  note U = ToPB_uncloned_ids [where conv = conv1 and str = str0 and k = plan1 and a = 0
        and a' = 0 and tn' = "Some 0" and e' = 0 and k' = plan2 and x = 0
        and g = "\<lparr>gen_id = 0\<rparr>" and h = plan0 and p = pred0 and bn = 0 and rs = "[0, 1]"
        and t = 11 and g' = "\<lparr>gen_id = 2\<rparr>" and h' = plan1
        and ?c0.0 = 0 and ?h0.0 = plan2 and rf = 0 and tn = 0 and e = 0]
  have c1: "filterConvertible conv0 plan1 0" by (rule conv0_convertible)
  have c2: "filterConvertible conv0 plan2 0" by (rule conv0_convertible)
  show ?thesis
    using T U t6 m n5 c1 c2 generate_plan0 assign_plan1 plan2_convertible(4)
    by (simp add: plan2_next plan2_simps plan6_simps plan1_simps conv0_convertible
          Sprint_2_7 Clone_fst plan6_def [symmetric] zero_RuntimeFilter_def list_all_iff
          plan0_def)
qed

end
